theory Spec2Isabelle
  imports Main "HOL-Library.Char_ord" "HOL-Library.List_Lexorder" "HOL-Library.Multiset"
begin

section \<open>Strings\<close>

text \<open>
  A Python \<^verbatim>\<open>str\<close> is modelled by the \<open>string\<close> of its UTF-8 bytes, so an ASCII
  text is the list of its characters, and the order on strings (lexicographic, by
  byte) is Python's order by code point. \<^verbatim>\<open>bytes\<close> values are strings as well.
  Python counts a \<^verbatim>\<open>str\<close> in code points: \<open>str_len\<close> and \<open>str_slice\<close> below count
  them in the bytes. \<^verbatim>\<open>str.lower()\<close> is the library's Unicode case mapping; the
  functions that call it on arbitrary text take it as the parameter \<open>lower\<close>.
\<close>

text \<open>
  The lowering of the letters A to Z. It is used for the test of the \<open>re:\<close> prefix,
  where no other character matters, and as the \<open>lower\<close> of examples in ASCII.
\<close>

definition lower_char :: "char \<Rightarrow> char" where
  "lower_char c =
     (case map_of (zip ''ABCDEFGHIJKLMNOPQRSTUVWXYZ'' ''abcdefghijklmnopqrstuvwxyz'') c of
        Some d \<Rightarrow> d
      | None \<Rightarrow> c)"

definition str_lower :: "string \<Rightarrow> string" where
  "str_lower s = map lower_char s"

definition startswith :: "string \<Rightarrow> string \<Rightarrow> bool" where
  "startswith s p = (take (length p) s = p)"

text \<open>\<^verbatim>\<open>sep.join(xs)\<close>.\<close>

fun join :: "string \<Rightarrow> string list \<Rightarrow> string" where
  "join sep [] = []"
| "join sep [x] = x"
| "join sep (x # y # ys) = x @ sep @ join sep (y # ys)"

text \<open>\<^verbatim>\<open>str(n)\<close> for an integer, as an f-string renders it.\<close>

fun str_nat :: "nat \<Rightarrow> string" where
  "str_nat n =
     (if n < 10 then [''0123456789'' ! n]
      else str_nat (n div 10) @ [''0123456789'' ! (n mod 10)])"

declare str_nat.simps [simp del]

definition str_int :: "int \<Rightarrow> string" where
  "str_int i = (if i < 0 then CHR ''-'' # str_nat (nat (- i)) else str_nat (nat i))"

text \<open>
  In UTF-8 a code point is one byte that is not a continuation byte, followed by its
  continuation bytes. \<open>str_len s\<close> is \<^verbatim>\<open>len(s)\<close>, the number of code points, and
  \<open>str_slice n s\<close> is \<^verbatim>\<open>s[:n]\<close>, the first \<open>n\<close> code points, for a well-formed \<open>s\<close>.
\<close>

definition continuation :: "char \<Rightarrow> bool" where
  "continuation c = (CHR 0x80 \<le> c \<and> c \<le> CHR 0xBF)"

definition str_len :: "string \<Rightarrow> nat" where
  "str_len s = length (filter (\<lambda>c. \<not> continuation c) s)"

fun str_slice :: "nat \<Rightarrow> string \<Rightarrow> string" where
  "str_slice n [] = []"
| "str_slice n (c # cs) =
     (if continuation c then c # str_slice n cs
      else (case n of 0 \<Rightarrow> [] | Suc m \<Rightarrow> c # str_slice m cs))"

section \<open>Error classifier\<close>

text \<open>
  The exceptions raised in a handler:
  \<^item> \<open>HttpError status details\<close>: googleapiclient's error, with \<^verbatim>\<open>e.resp.status\<close> and
    \<^verbatim>\<open>str(e.error_details)\<close> (\<open>None\<close> when the attribute is absent);
  \<^item> \<open>FileNotFoundError msg\<close>, with \<^verbatim>\<open>str(e)\<close>;
  \<^item> \<open>PyException cls msg\<close>: any other instance of \<^verbatim>\<open>Exception\<close>, with
    \<^verbatim>\<open>type(e).__name__\<close> and \<^verbatim>\<open>str(e)\<close>;
  \<^item> \<open>BaseException cls msg\<close>: an exception that is not an instance of \<^verbatim>\<open>Exception\<close>
    (\<^verbatim>\<open>KeyboardInterrupt\<close>, \<^verbatim>\<open>SystemExit\<close>, \<^verbatim>\<open>asyncio.CancelledError\<close>), with its class
    name and \<^verbatim>\<open>str(e)\<close>.
\<close>

datatype exn =
    HttpError int "string option"
  | FileNotFoundError string
  | PyException string string
  | BaseException string string

text \<open>\<^verbatim>\<open>isinstance(e, Exception)\<close>.\<close>

fun isinstance_Exception :: "exn \<Rightarrow> bool" where
  "isinstance_Exception (BaseException cls msg) = False"
| "isinstance_Exception e = True"

definition handle_api_error :: "exn \<Rightarrow> string" where
  "handle_api_error e =
     (case e of
        HttpError status details \<Rightarrow>
          if status = 404 then ''Error: Resource not found. Please check the ID is correct.''
          else if status = 403 then ''Error: Permission denied. Check your Gmail API permissions.''
          else if status = 429 then
            ''Error: Rate limit exceeded. Please wait before making more requests.''
          else if status = 400 then
            ''Error: Invalid request. '' @
              (case details of Some d \<Rightarrow> d | None \<Rightarrow> ''Check your parameters.'')
          else ''Error: Gmail API error (status '' @ str_int status @ '')''
      | FileNotFoundError msg \<Rightarrow> msg
      | PyException cls msg \<Rightarrow> ''Error: '' @ cls @ '': '' @ msg
      | BaseException cls msg \<Rightarrow> ''Error: '' @ cls @ '': '' @ msg)"

text \<open>
  Every handler has the shape
  \<^verbatim>\<open>try: <body> except Exception as e: return _handle_api_error(e)\<close>.
  The body either raises (\<open>Inl e\<close>) or returns its string (\<open>Inr out\<close>), and leaves a
  state \<open>s\<close> behind. So does the handler: the clause takes the instances of
  \<^verbatim>\<open>Exception\<close>, for which the handler returns the classifier's string; any other
  exception leaves the handler as it left the body.
\<close>

definition try_except :: "(exn + string) \<times> 's \<Rightarrow> (exn + string) \<times> 's" where
  "try_except r =
     (case r of
        (Inl e, s) \<Rightarrow> (if isinstance_Exception e then Inr (handle_api_error e) else Inl e, s)
      | (Inr out, s) \<Rightarrow> (Inr out, s))"

section \<open>Header lookup\<close>

record header =
  h_name :: string
  h_value :: string

text \<open>\<open>lower\<close> is \<^verbatim>\<open>str.lower\<close>.\<close>

fun get_header_value :: "(string \<Rightarrow> string) \<Rightarrow> header list \<Rightarrow> string \<Rightarrow> string" where
  "get_header_value lower [] name = []"
| "get_header_value lower (header # headers) name =
     (if lower (h_name header) = lower name then h_value header
      else get_header_value lower headers name)"

section \<open>Reply subject\<close>

text \<open>The subject of a reply, from the subject of the thread's first message.\<close>

definition reply_subject :: "string \<Rightarrow> string" where
  "reply_subject subject =
     (if \<not> startswith (str_lower subject) ''re:'' then ''Re: '' @ subject else subject)"

text \<open>
  The spec's words for the test: the subject starts with \<open>Re:\<close>, in any letter case.
\<close>

definition starts_with_re :: "string \<Rightarrow> bool" where
  "starts_with_re s =
     (case s of
        c1 # c2 # c3 # rest \<Rightarrow>
          (c1 = CHR ''R'' \<or> c1 = CHR ''r'') \<and> (c2 = CHR ''E'' \<or> c2 = CHR ''e'') \<and> c3 = CHR '':''
      | _ \<Rightarrow> False)"

section \<open>Body decoding\<close>

text \<open>
  The library call \<^verbatim>\<open>base64.urlsafe_b64decode(data).decode('utf-8')\<close>, after CPython.
  It raises \<^verbatim>\<open>ValueError\<close> for a \<^verbatim>\<open>str\<close> argument with a character outside ASCII,
  \<^verbatim>\<open>binascii.Error\<close> (whose class name is \<open>Error\<close>) for a wrong length or padding, and
  \<^verbatim>\<open>UnicodeDecodeError\<close> for bytes that are not UTF-8, each with its message.
\<close>

text \<open>The value of a character of the standard base64 alphabet.\<close>

fun index_of :: "'a \<Rightarrow> 'a list \<Rightarrow> nat option" where
  "index_of c [] = None"
| "index_of c (x # xs) =
     (if x = c then Some 0 else (case index_of c xs of None \<Rightarrow> None | Some i \<Rightarrow> Some (i + 1)))"

definition b64_value :: "char \<Rightarrow> nat option" where
  "b64_value c =
     index_of c ''ABCDEFGHIJKLMNOPQRSTUVWXYZabcdefghijklmnopqrstuvwxyz0123456789+/''"

text \<open>
  \<^verbatim>\<open>binascii.a2b_base64\<close> with \<^verbatim>\<open>strict_mode\<close> off, as a loop over the characters:
  \<open>quad_pos\<close> counts the data characters of the current group of four, \<open>leftchar\<close>
  holds the bits not yet written, \<open>pads\<close> the padding characters seen since the last
  data character. Characters outside the alphabet are skipped; a padding that
  completes a group ends the decoding; data that ends inside a group is an error.
\<close>

fun a2b_base64 :: "string \<Rightarrow> nat \<Rightarrow> nat \<Rightarrow> nat \<Rightarrow> string \<Rightarrow> exn + string" where
  "a2b_base64 [] quad_pos leftchar pads bin_data =
     (if quad_pos = 0 then Inr bin_data
      else if quad_pos = 1 then
        Inl (PyException ''Error''
              (''Invalid base64-encoded string: number of data characters ('' @
               str_nat (length bin_data div 3 * 4 + 1) @
               '') cannot be 1 more than a multiple of 4''))
      else Inl (PyException ''Error'' ''Incorrect padding''))"
| "a2b_base64 (this_ch # rest) quad_pos leftchar pads bin_data =
     (if this_ch = CHR ''='' then
        (if 2 \<le> quad_pos \<and> 4 \<le> quad_pos + (pads + 1) then Inr bin_data
         else a2b_base64 rest quad_pos leftchar (if 2 \<le> quad_pos then pads + 1 else pads)
                bin_data)
      else
        (case b64_value this_ch of
           None \<Rightarrow> a2b_base64 rest quad_pos leftchar pads bin_data
         | Some v \<Rightarrow>
             if quad_pos = 0 then a2b_base64 rest 1 v 0 bin_data
             else if quad_pos = 1 then
               a2b_base64 rest 2 (v mod 16) 0 (bin_data @ [char_of (leftchar * 4 + v div 16)])
             else if quad_pos = 2 then
               a2b_base64 rest 3 (v mod 4) 0 (bin_data @ [char_of (leftchar * 16 + v div 4)])
             else a2b_base64 rest 0 0 0 (bin_data @ [char_of (leftchar * 64 + v)])))"

text \<open>
  \<^verbatim>\<open>base64.urlsafe_b64decode(s)\<close> for a \<^verbatim>\<open>str\<close>: the string is encoded as ASCII, \<^verbatim>\<open>-\<close>
  and \<^verbatim>\<open>_\<close> are translated to \<^verbatim>\<open>+\<close> and \<^verbatim>\<open>/\<close>, and the result is decoded.
\<close>

definition urlsafe_translate :: "char \<Rightarrow> char" where
  "urlsafe_translate c = (if c = CHR ''-'' then CHR ''+'' else if c = CHR ''_'' then CHR ''/'' else c)"

definition urlsafe_b64decode :: "string \<Rightarrow> exn + string" where
  "urlsafe_b64decode s =
     (if \<exists>c \<in> set s. CHR 0x7F < c then
        Inl (PyException ''ValueError'' ''string argument should contain only ASCII characters'')
      else a2b_base64 (map urlsafe_translate s) 0 0 0 [])"

text \<open>
  \<^verbatim>\<open>bytes.decode('utf-8')\<close>: the bytes must be well-formed UTF-8 (no overlong form, no
  surrogate, nothing above U+10FFFF); the text is then these bytes. \<open>utf8_scan\<close> finds
  the first ill-formed sequence, at the byte numbered \<open>pos\<close> or later: where it starts,
  where the decoder stops, and the reason the decoder gives.
\<close>

text \<open>The second byte of a sequence of three, and of a sequence of four.\<close>

definition second_of_three :: "char \<Rightarrow> char \<Rightarrow> bool" where
  "second_of_three b0 b1 =
     (if b0 = CHR 0xE0 then CHR 0xA0 \<le> b1 \<and> b1 \<le> CHR 0xBF
      else if b0 = CHR 0xED then CHR 0x80 \<le> b1 \<and> b1 \<le> CHR 0x9F
      else continuation b1)"

definition second_of_four :: "char \<Rightarrow> char \<Rightarrow> bool" where
  "second_of_four b0 b1 =
     (if b0 = CHR 0xF0 then CHR 0x90 \<le> b1 \<and> b1 \<le> CHR 0xBF
      else if b0 = CHR 0xF4 then CHR 0x80 \<le> b1 \<and> b1 \<le> CHR 0x8F
      else continuation b1)"

fun utf8_scan :: "nat \<Rightarrow> string \<Rightarrow> (nat \<times> nat \<times> string) option" where
  "utf8_scan pos [] = None"
| "utf8_scan pos (b0 # bs) =
     (if b0 \<le> CHR 0x7F then utf8_scan (pos + 1) bs
      else if b0 < CHR 0xC2 then Some (pos, pos + 1, ''invalid start byte'')
      else if b0 \<le> CHR 0xDF then
        (case bs of
           [] \<Rightarrow> Some (pos, pos + 1, ''unexpected end of data'')
         | b1 # r1 \<Rightarrow>
             if continuation b1 then utf8_scan (pos + 2) r1
             else Some (pos, pos + 1, ''invalid continuation byte''))
      else if b0 \<le> CHR 0xEF then
        (case bs of
           [] \<Rightarrow> Some (pos, pos + 1, ''unexpected end of data'')
         | b1 # r1 \<Rightarrow>
             if \<not> second_of_three b0 b1 then Some (pos, pos + 1, ''invalid continuation byte'')
             else
               (case r1 of
                  [] \<Rightarrow> Some (pos, pos + 2, ''unexpected end of data'')
                | b2 # r2 \<Rightarrow>
                    if continuation b2 then utf8_scan (pos + 3) r2
                    else Some (pos, pos + 2, ''invalid continuation byte'')))
      else if b0 \<le> CHR 0xF4 then
        (case bs of
           [] \<Rightarrow> Some (pos, pos + 1, ''unexpected end of data'')
         | b1 # r1 \<Rightarrow>
             if \<not> second_of_four b0 b1 then Some (pos, pos + 1, ''invalid continuation byte'')
             else
               (case r1 of
                  [] \<Rightarrow> Some (pos, pos + 2, ''unexpected end of data'')
                | b2 # r2 \<Rightarrow>
                    if \<not> continuation b2 then Some (pos, pos + 2, ''invalid continuation byte'')
                    else
                      (case r2 of
                         [] \<Rightarrow> Some (pos, pos + 3, ''unexpected end of data'')
                       | b3 # r3 \<Rightarrow>
                           if continuation b3 then utf8_scan (pos + 4) r3
                           else Some (pos, pos + 3, ''invalid continuation byte''))))
      else Some (pos, pos + 1, ''invalid start byte''))"

text \<open>Two hexadecimal digits, as \<^verbatim>\<open>%02x\<close> prints a byte.\<close>

definition hex2 :: "char \<Rightarrow> string" where
  "hex2 c =
     [''0123456789abcdef'' ! (of_char c div 16), ''0123456789abcdef'' ! (of_char c mod 16)]"

text \<open>\<^verbatim>\<open>str(e)\<close> of the \<^verbatim>\<open>UnicodeDecodeError\<close> for the bytes \<open>bs\<close> and a span of \<open>utf8_scan\<close>.\<close>

definition unicode_decode_error :: "string \<Rightarrow> nat \<times> nat \<times> string \<Rightarrow> exn" where
  "unicode_decode_error bs err =
     (case err of
        (start, stop, reason) \<Rightarrow>
          PyException ''UnicodeDecodeError''
            (if stop = start + 1 then
               [CHR 0x27] @ ''utf-8'' @ [CHR 0x27] @ '' codec can'' @ [CHR 0x27] @
               ''t decode byte 0x'' @ hex2 (bs ! start) @ '' in position '' @ str_nat start @
               '': '' @ reason
             else
               [CHR 0x27] @ ''utf-8'' @ [CHR 0x27] @ '' codec can'' @ [CHR 0x27] @
               ''t decode bytes in position '' @ str_nat start @ ''-'' @ str_nat (stop - 1) @
               '': '' @ reason))"

definition decode_utf8 :: "string \<Rightarrow> exn + string" where
  "decode_utf8 bs =
     (case utf8_scan 0 bs of
        None \<Rightarrow> Inr bs
      | Some err \<Rightarrow> Inl (unicode_decode_error bs err))"

definition b64_text :: "string \<Rightarrow> exn + string" where
  "b64_text data =
     (case urlsafe_b64decode data of Inl e \<Rightarrow> Inl e | Inr bs \<Rightarrow> decode_utf8 bs)"

text \<open>
  A part of a payload has a \<^verbatim>\<open>mimeType\<close> and a \<^verbatim>\<open>body\<close>, whose \<^verbatim>\<open>data\<close> may be absent.
  A payload has its headers; \<^verbatim>\<open>parts\<close> may be absent, \<^verbatim>\<open>body\<close> may be absent, and the
  \<^verbatim>\<open>data\<close> of a body that is there may be absent.
\<close>

record part =
  mimeType :: string
  part_data :: "string option"

record payload =
  headers :: "header list"
  parts :: "part list option"
  payload_body :: "string option option"

text \<open>
  The loop of lines 102 to 109, with the body found so far. A \<^verbatim>\<open>text/plain\<close> part with
  data ends the loop; a \<^verbatim>\<open>text/html\<close> part is decoded while the body is empty. No
  \<^verbatim>\<open>try\<close> surrounds the decoding: an exception of the library leaves the function.
\<close>

fun decode_parts :: "part list \<Rightarrow> string \<Rightarrow> exn + string" where
  "decode_parts [] found = Inr found"
| "decode_parts (p # rest) found =
     (if mimeType p = ''text/plain'' then
        (case part_data p of
           Some data \<Rightarrow> b64_text data
         | None \<Rightarrow> decode_parts rest found)
      else if mimeType p = ''text/html'' \<and> found = [] then
        (case part_data p of
           Some data \<Rightarrow>
             (case b64_text data of Inl e \<Rightarrow> Inl e | Inr t \<Rightarrow> decode_parts rest t)
         | None \<Rightarrow> decode_parts rest found)
      else decode_parts rest found)"

definition decode_message_body :: "payload \<Rightarrow> exn + string" where
  "decode_message_body p =
     (case parts p of
        Some ps \<Rightarrow> decode_parts ps []
      | None \<Rightarrow>
          (case payload_body p of
             Some (Some data) \<Rightarrow> b64_text data
           | _ \<Rightarrow> Inr []))"

section \<open>Messages\<close>

record message =
  m_id :: string
  threadId :: string
  m_payload :: payload
  snippet :: "string option"
  labelIds :: "string list option"

text \<open>\<^verbatim>\<open>d.get(key, default)\<close>, for the value of an optional key.\<close>

definition get_or :: "'a option \<Rightarrow> 'a \<Rightarrow> 'a" where
  "get_or v d = (case v of Some x \<Rightarrow> x | None \<Rightarrow> d)"

section \<open>The remote mailbox\<close>

record label =
  l_id :: string
  l_name :: string
  l_type :: string

text \<open>
  A request that changes the account: \<^verbatim>\<open>messages().modify(id, body)\<close>, whose body holds
  the keys \<^verbatim>\<open>addLabelIds\<close> and \<^verbatim>\<open>removeLabelIds\<close> when the handler set them,
  \<^verbatim>\<open>messages().trash(id)\<close>, \<^verbatim>\<open>messages().send(body)\<close> with the raw message and the
  thread identifier when the handler set one, and \<^verbatim>\<open>labels().create(body)\<close> with the
  name and the two visibilities.
\<close>

datatype request =
    MessagesModify string "string list option" "string list option"
  | MessagesTrash string
  | MessagesSend string "string option"
  | LabelsCreate string string string

text \<open>
  The collaborators of the handlers, as a state:
  \<^item> \<open>token_error\<close>: what \<^verbatim>\<open>get_gmail_service()\<close> raises, if it raises;
  \<^item> \<open>labels_list_error\<close>, \<open>modify_error\<close>, \<open>create_error\<close>, \<open>trash_error\<close>, \<open>send_error\<close>:
    what the remote calls raise;
  \<^item> \<open>account_labels\<close>: the labels of the account, in the order the API lists them;
  \<^item> \<open>message_labels\<close>: the label identifiers on each message;
  \<^item> \<open>next_label_id\<close>, \<open>next_message_id\<close>, \<open>next_thread_id\<close>: the identifiers the API
    gives to the next label, message and thread it creates;
  \<^item> \<open>requests\<close>: the changing requests issued so far, in order, failed ones included;
  \<^item> \<open>messages_list_result\<close>: for a query and a cap, what \<^verbatim>\<open>messages().list\<close> raises or the
    identifiers it returns;
  \<^item> \<open>messages_get_result\<close>: for an identifier, what \<^verbatim>\<open>messages().get\<close> raises or the
    message;
  \<^item> \<open>threads_get_result\<close>: for an identifier, what \<^verbatim>\<open>threads().get\<close> raises or the
    messages of the thread.
  Reading requests leave the state as it is.
\<close>

record server =
  token_error :: "exn option"
  labels_list_error :: "exn option"
  modify_error :: "string \<Rightarrow> exn option"
  create_error :: "exn option"
  account_labels :: "label list"
  message_labels :: "string \<Rightarrow> string set"
  next_label_id :: string
  requests :: "request list"
  messages_list_result :: "string \<Rightarrow> int \<Rightarrow> exn + string list"
  messages_get_result :: "string \<Rightarrow> exn + message"
  threads_get_result :: "string \<Rightarrow> exn + message list"
  trash_error :: "string \<Rightarrow> exn option"
  send_error :: "exn option"
  next_message_id :: string
  next_thread_id :: string

definition get_gmail_service :: "server \<Rightarrow> exn + unit" where
  "get_gmail_service srv = (case token_error srv of Some e \<Rightarrow> Inl e | None \<Rightarrow> Inr ())"

text \<open>\<^verbatim>\<open>labels().list(userId='me').execute().get('labels', [])\<close>.\<close>

definition labels_list :: "server \<Rightarrow> exn + label list" where
  "labels_list srv =
     (case labels_list_error srv of Some e \<Rightarrow> Inl e | None \<Rightarrow> Inr (account_labels srv))"

definition messages_modify ::
  "server \<Rightarrow> string \<Rightarrow> string list option \<times> string list option \<Rightarrow> (exn + unit) \<times> server"
where
  "messages_modify srv message_id body =
     (let srv' = srv\<lparr>requests := requests srv @ [MessagesModify message_id (fst body) (snd body)]\<rparr>
      in case modify_error srv message_id of
           Some e \<Rightarrow> (Inl e, srv')
         | None \<Rightarrow>
             (Inr (),
              srv'\<lparr>message_labels := (message_labels srv)
                (message_id :=
                   (message_labels srv message_id
                      \<union> (case fst body of Some ids \<Rightarrow> set ids | None \<Rightarrow> {}))
                   - (case snd body of Some ids \<Rightarrow> set ids | None \<Rightarrow> {}))\<rparr>))"

definition messages_trash :: "server \<Rightarrow> string \<Rightarrow> (exn + unit) \<times> server" where
  "messages_trash srv message_id =
     (let srv' = srv\<lparr>requests := requests srv @ [MessagesTrash message_id]\<rparr>
      in case trash_error srv message_id of
           Some e \<Rightarrow> (Inl e, srv')
         | None \<Rightarrow>
             (Inr (),
              srv'\<lparr>message_labels := (message_labels srv)
                (message_id := insert ''TRASH'' (message_labels srv message_id))\<rparr>))"

text \<open>The answer of \<^verbatim>\<open>messages().send\<close>: the keys \<^verbatim>\<open>id\<close> and \<^verbatim>\<open>threadId\<close>.\<close>

record sent =
  sent_id :: string
  sent_threadId :: string

definition messages_send :: "server \<Rightarrow> string \<Rightarrow> string option \<Rightarrow> (exn + sent) \<times> server" where
  "messages_send srv raw thread =
     (let srv' = srv\<lparr>requests := requests srv @ [MessagesSend raw thread]\<rparr>
      in case send_error srv of
           Some e \<Rightarrow> (Inl e, srv')
         | None \<Rightarrow>
             (Inr \<lparr>sent_id = next_message_id srv,
                   sent_threadId = (case thread of Some t \<Rightarrow> t | None \<Rightarrow> next_thread_id srv)\<rparr>,
              srv'))"

definition labels_create ::
  "server \<Rightarrow> string \<Rightarrow> string \<Rightarrow> string \<Rightarrow> (exn + label) \<times> server"
where
  "labels_create srv name label_list_visibility message_list_visibility =
     (let srv' = srv\<lparr>requests := requests srv @
                   [LabelsCreate name label_list_visibility message_list_visibility]\<rparr>
      in case create_error srv of
           Some e \<Rightarrow> (Inl e, srv')
         | None \<Rightarrow>
             (let result = \<lparr>l_id = next_label_id srv, l_name = name, l_type = ''user''\<rparr>
              in (Inr result, srv'\<lparr>account_labels := account_labels srv @ [result]\<rparr>)))"

text \<open>
  \<^verbatim>\<open>messages().list(userId='me', q=..., maxResults=...).execute().get('messages', [])\<close>,
  as the identifiers of the messages.
\<close>

definition messages_list :: "server \<Rightarrow> string \<Rightarrow> int \<Rightarrow> exn + string list" where
  "messages_list srv q max_results = messages_list_result srv q max_results"

text \<open>
  \<^verbatim>\<open>messages().get(userId='me', id=..., format=...)\<close>: with the format \<^verbatim>\<open>metadata\<close> the
  payload holds the headers only.
\<close>

definition messages_get :: "server \<Rightarrow> string \<Rightarrow> string \<Rightarrow> exn + message" where
  "messages_get srv message_id fmt =
     (case messages_get_result srv message_id of
        Inl e \<Rightarrow> Inl e
      | Inr msg \<Rightarrow>
          Inr (if fmt = ''full'' then msg
               else msg\<lparr>m_payload := (m_payload msg)\<lparr>parts := None, payload_body := None\<rparr>\<rparr>))"

definition threads_get :: "server \<Rightarrow> string \<Rightarrow> exn + message list" where
  "threads_get srv thread_id = threads_get_result srv thread_id"

datatype response_format = MARKDOWN | JSON

text \<open>
  The documents the handlers hand to \<^verbatim>\<open>json.dumps(output, indent=2)\<close>. The serialiser is
  the library's: the handlers take it as the parameter \<open>dumps\<close>.
\<close>

datatype json =
    JString string
  | JInt int
  | JArray "json list"
  | JObject "(string \<times> json) list"

definition check_mark :: string where
  "check_mark = [CHR 0xE2, CHR 0x9C, CHR 0x93]"

section \<open>search_emails\<close>

record search_emails_input =
  se_query :: string
  se_max_results :: int
  se_include_body :: bool
  se_format :: response_format

text \<open>The loop of lines 355 to 361.\<close>

fun fetch_messages :: "server \<Rightarrow> string list \<Rightarrow> string \<Rightarrow> message list \<Rightarrow> exn + message list" where
  "fetch_messages srv [] fmt detailed_messages = Inr detailed_messages"
| "fetch_messages srv (message_id # rest) fmt detailed_messages =
     (case messages_get srv message_id fmt of
        Inl e \<Rightarrow> Inl e
      | Inr msg_data \<Rightarrow> fetch_messages srv rest fmt (detailed_messages @ [msg_data]))"

text \<open>The dictionary \<^verbatim>\<open>message_info\<close> of lines 372 to 385.\<close>

definition message_info :: "(string \<Rightarrow> string) \<Rightarrow> message \<Rightarrow> bool \<Rightarrow> exn + json" where
  "message_info lower msg include_body =
     (let hs = headers (m_payload msg);
          info =
            [(''id'', JString (m_id msg)),
             (''thread_id'', JString (threadId msg)),
             (''from'', JString (get_header_value lower hs ''From'')),
             (''to'', JString (get_header_value lower hs ''To'')),
             (''subject'', JString (get_header_value lower hs ''Subject'')),
             (''date'', JString (get_header_value lower hs ''Date'')),
             (''snippet'', JString (get_or (snippet msg) [])),
             (''labels'', JArray (map JString (get_or (labelIds msg) [])))]
      in if include_body then
           (case decode_message_body (m_payload msg) of
              Inl e \<Rightarrow> Inl e
            | Inr decoded \<Rightarrow> Inr (JObject (info @ [(''body'', JString decoded)])))
         else Inr (JObject info))"

fun message_infos :: "(string \<Rightarrow> string) \<Rightarrow> message list \<Rightarrow> bool \<Rightarrow> json list \<Rightarrow> exn + json list"
where
  "message_infos lower [] include_body infos = Inr infos"
| "message_infos lower (msg # rest) include_body infos =
     (case message_info lower msg include_body of
        Inl e \<Rightarrow> Inl e
      | Inr info \<Rightarrow> message_infos lower rest include_body (infos @ [info]))"

text \<open>
  The loop of lines 397 to 413, for the message numbered \<open>i\<close>: \<open>search_entry_fields\<close> is
  the text of lines 399 to 407, \<open>search_entry\<close> the whole text the loop appends to the
  output.
\<close>

definition search_entry_fields :: "(string \<Rightarrow> string) \<Rightarrow> nat \<Rightarrow> message \<Rightarrow> string" where
  "search_entry_fields lower i msg =
     (let hs = headers (m_payload msg) in
      ''## '' @ str_nat i @ ''. Message\<newline>\<newline>'' @
      ''**ID:** `'' @ m_id msg @ ''`\<newline>'' @
      ''**Thread ID:** `'' @ threadId msg @ ''`\<newline>'' @
      ''**From:** '' @ get_header_value lower hs ''From'' @ ''\<newline>'' @
      ''**To:** '' @ get_header_value lower hs ''To'' @ ''\<newline>'' @
      ''**Subject:** '' @ get_header_value lower hs ''Subject'' @ ''\<newline>'' @
      ''**Date:** '' @ get_header_value lower hs ''Date'' @ ''\<newline>'' @
      ''**Labels:** '' @ join '', '' (get_or (labelIds msg) []) @ ''\<newline>\<newline>'' @
      ''**Snippet:** '' @ get_or (snippet msg) [] @ ''\<newline>\<newline>'')"

definition search_entry :: "(string \<Rightarrow> string) \<Rightarrow> nat \<Rightarrow> message \<Rightarrow> bool \<Rightarrow> exn + string" where
  "search_entry lower i msg include_body =
     (if include_body then
        (case decode_message_body (m_payload msg) of
           Inl e \<Rightarrow> Inl e
         | Inr decoded \<Rightarrow>
             Inr (search_entry_fields lower i msg @
                  ''**Body:**\<newline>```\<newline>'' @ str_slice 500 decoded @
                  (if 500 < str_len decoded then ''...'' else []) @
                  ''\<newline>```\<newline>\<newline>'' @
                  ''---\<newline>\<newline>''))
      else Inr (search_entry_fields lower i msg @ ''---\<newline>\<newline>''))"

fun search_entries ::
  "(string \<Rightarrow> string) \<Rightarrow> nat \<Rightarrow> message list \<Rightarrow> bool \<Rightarrow> string \<Rightarrow> exn + string"
where
  "search_entries lower i [] include_body output = Inr output"
| "search_entries lower i (msg # rest) include_body output =
     (case search_entry lower i msg include_body of
        Inl e \<Rightarrow> Inl e
      | Inr entry \<Rightarrow> search_entries lower (i + 1) rest include_body (output @ entry))"

text \<open>The markdown branch, lines 392 to 415, for the messages fetched.\<close>

definition search_emails_markdown ::
  "(string \<Rightarrow> string) \<Rightarrow> string \<Rightarrow> message list \<Rightarrow> bool \<Rightarrow> exn + string"
where
  "search_emails_markdown lower q detailed_messages include_body =
     search_entries lower 1 detailed_messages include_body
       (''# Search Results\<newline>\<newline>'' @
        ''**Query:** '' @ q @ ''\<newline>'' @
        ''**Found:** '' @ str_nat (length detailed_messages) @ '' message(s)\<newline>\<newline>'' @
        ''---\<newline>\<newline>'')"

text \<open>The JSON branch, lines 365 to 389.\<close>

definition search_emails_json ::
  "(string \<Rightarrow> string) \<Rightarrow> string \<Rightarrow> message list \<Rightarrow> bool \<Rightarrow> exn + json"
where
  "search_emails_json lower q detailed_messages include_body =
     (case message_infos lower detailed_messages include_body [] of
        Inl e \<Rightarrow> Inl e
      | Inr infos \<Rightarrow>
          Inr (JObject [(''total_results'', JInt (int (length detailed_messages))),
                        (''query'', JString q),
                        (''messages'', JArray infos)]))"

definition search_emails_body ::
  "(string \<Rightarrow> string) \<Rightarrow> (json \<Rightarrow> string) \<Rightarrow> server \<Rightarrow> search_emails_input \<Rightarrow>
   (exn + string) \<times> server"
where
  "search_emails_body lower dumps srv params =
     (case get_gmail_service srv of
        Inl e \<Rightarrow> (Inl e, srv)
      | Inr service \<Rightarrow>
     (case messages_list srv (se_query params) (se_max_results params) of
        Inl e \<Rightarrow> (Inl e, srv)
      | Inr messages \<Rightarrow>
          if messages = [] then (Inr ''No messages found matching your search query.'', srv)
          else
     (case fetch_messages srv messages
             (if se_include_body params then ''full'' else ''metadata'') [] of
        Inl e \<Rightarrow> (Inl e, srv)
      | Inr detailed_messages \<Rightarrow>
          if se_format params = JSON then
            (case search_emails_json lower (se_query params) detailed_messages
                    (se_include_body params) of
               Inl e \<Rightarrow> (Inl e, srv)
             | Inr doc \<Rightarrow> (Inr (dumps doc), srv))
          else
            (case search_emails_markdown lower (se_query params) detailed_messages
                    (se_include_body params) of
               Inl e \<Rightarrow> (Inl e, srv)
             | Inr output \<Rightarrow> (Inr output, srv)))))"

definition search_emails ::
  "(string \<Rightarrow> string) \<Rightarrow> (json \<Rightarrow> string) \<Rightarrow> server \<Rightarrow> search_emails_input \<Rightarrow>
   (exn + string) \<times> server"
where
  "search_emails lower dumps srv params = try_except (search_emails_body lower dumps srv params)"

section \<open>get_email\<close>

record get_email_input =
  ge_message_id :: string
  ge_format :: response_format

text \<open>
  The markdown branch for the message fetched: the body is decoded first (line 457);
  \<open>get_email_fields\<close> is the text of lines 476 to 489, to which line 490 appends the
  body.
\<close>

definition get_email_fields :: "(string \<Rightarrow> string) \<Rightarrow> message \<Rightarrow> string" where
  "get_email_fields lower msg =
     (let hs = headers (m_payload msg);
          cc = get_header_value lower hs ''Cc''
      in ''# Email Details\<newline>\<newline>'' @
         ''**ID:** `'' @ m_id msg @ ''`\<newline>'' @
         ''**Thread ID:** `'' @ threadId msg @ ''`\<newline>'' @
         ''**From:** '' @ get_header_value lower hs ''From'' @ ''\<newline>'' @
         ''**To:** '' @ get_header_value lower hs ''To'' @ ''\<newline>'' @
         (if cc \<noteq> [] then ''**CC:** '' @ cc @ ''\<newline>'' else []) @
         ''**Subject:** '' @ get_header_value lower hs ''Subject'' @ ''\<newline>'' @
         ''**Date:** '' @ get_header_value lower hs ''Date'' @ ''\<newline>'' @
         ''**Labels:** '' @ join '', '' (get_or (labelIds msg) []) @ ''\<newline>\<newline>'' @
         ''**Snippet:** '' @ get_or (snippet msg) [] @ ''\<newline>\<newline>'')"

definition get_email_markdown :: "(string \<Rightarrow> string) \<Rightarrow> message \<Rightarrow> exn + string" where
  "get_email_markdown lower msg =
     (case decode_message_body (m_payload msg) of
        Inl e \<Rightarrow> Inl e
      | Inr decoded \<Rightarrow>
          Inr (get_email_fields lower msg @ ''## Body\<newline>\<newline>'' @ decoded @ ''\<newline>''))"

text \<open>The JSON branch, lines 460 to 473.\<close>

definition get_email_json :: "(string \<Rightarrow> string) \<Rightarrow> message \<Rightarrow> exn + json" where
  "get_email_json lower msg =
     (let hs = headers (m_payload msg) in
      case decode_message_body (m_payload msg) of
        Inl e \<Rightarrow> Inl e
      | Inr decoded \<Rightarrow>
          Inr (JObject
                [(''id'', JString (m_id msg)),
                 (''thread_id'', JString (threadId msg)),
                 (''from'', JString (get_header_value lower hs ''From'')),
                 (''to'', JString (get_header_value lower hs ''To'')),
                 (''cc'', JString (get_header_value lower hs ''Cc'')),
                 (''bcc'', JString (get_header_value lower hs ''Bcc'')),
                 (''subject'', JString (get_header_value lower hs ''Subject'')),
                 (''date'', JString (get_header_value lower hs ''Date'')),
                 (''labels'', JArray (map JString (get_or (labelIds msg) []))),
                 (''snippet'', JString (get_or (snippet msg) [])),
                 (''body'', JString decoded)]))"

definition get_email_body ::
  "(string \<Rightarrow> string) \<Rightarrow> (json \<Rightarrow> string) \<Rightarrow> server \<Rightarrow> get_email_input \<Rightarrow>
   (exn + string) \<times> server"
where
  "get_email_body lower dumps srv params =
     (case get_gmail_service srv of
        Inl e \<Rightarrow> (Inl e, srv)
      | Inr service \<Rightarrow>
     (case messages_get srv (ge_message_id params) ''full'' of
        Inl e \<Rightarrow> (Inl e, srv)
      | Inr msg \<Rightarrow>
          if ge_format params = JSON then
            (case get_email_json lower msg of
               Inl e \<Rightarrow> (Inl e, srv)
             | Inr doc \<Rightarrow> (Inr (dumps doc), srv))
          else
            (case get_email_markdown lower msg of
               Inl e \<Rightarrow> (Inl e, srv)
             | Inr output \<Rightarrow> (Inr output, srv))))"

definition get_email ::
  "(string \<Rightarrow> string) \<Rightarrow> (json \<Rightarrow> string) \<Rightarrow> server \<Rightarrow> get_email_input \<Rightarrow>
   (exn + string) \<times> server"
where
  "get_email lower dumps srv params = try_except (get_email_body lower dumps srv params)"

section \<open>send_email and reply_to_email\<close>

text \<open>
  The message a handler builds with \<^verbatim>\<open>email.mime\<close>: \<^verbatim>\<open>MIMEText(body)\<close>, or a
  \<^verbatim>\<open>MIMEMultipart('alternative')\<close> with the body attached as HTML, and the headers the
  handler sets, in the order it sets them. Building the message, \<^verbatim>\<open>message.as_bytes()\<close>
  and \<^verbatim>\<open>base64.urlsafe_b64encode(...).decode()\<close> are the library's: the handlers take
  them, together, as the parameter \<open>as_raw\<close>, which raises or gives the raw message.
\<close>

record mime_message =
  mime_is_html :: bool
  mime_body :: string
  mime_headers :: "(string \<times> string) list"

record send_email_input =
  sm_to :: "string list"
  sm_subject :: string
  sm_body :: string
  sm_cc :: "string list option"
  sm_bcc :: "string list option"
  sm_reply_to :: "string option"
  sm_is_html :: bool

definition send_email_body ::
  "(mime_message \<Rightarrow> exn + string) \<Rightarrow> server \<Rightarrow> send_email_input \<Rightarrow> (exn + string) \<times> server"
where
  "send_email_body as_raw srv params =
     (case get_gmail_service srv of
        Inl e \<Rightarrow> (Inl e, srv)
      | Inr service \<Rightarrow>
     (let message =
            \<lparr>mime_is_html = sm_is_html params, mime_body = sm_body params,
             mime_headers =
               [(''To'', join '', '' (sm_to params)), (''Subject'', sm_subject params)] @
               (if get_or (sm_cc params) [] \<noteq> []
                then [(''Cc'', join '', '' (get_or (sm_cc params) []))] else []) @
               (if get_or (sm_bcc params) [] \<noteq> []
                then [(''Bcc'', join '', '' (get_or (sm_bcc params) []))] else []) @
               (if get_or (sm_reply_to params) [] \<noteq> []
                then [(''Reply-To'', get_or (sm_reply_to params) [])] else [])\<rparr>
      in case as_raw message of
           Inl e \<Rightarrow> (Inl e, srv)
         | Inr encoded_message \<Rightarrow>
     (case messages_send srv encoded_message None of
        (Inl e, srv') \<Rightarrow> (Inl e, srv')
      | (Inr result, srv') \<Rightarrow>
          (Inr (check_mark @ '' Email sent successfully!\<newline>\<newline>'' @
                ''**Message ID:** '' @ sent_id result @ ''\<newline>'' @
                ''**Thread ID:** '' @ sent_threadId result @ ''\<newline>'' @
                ''**To:** '' @ join '', '' (sm_to params) @ ''\<newline>'' @
                ''**Subject:** '' @ sm_subject params),
           srv'))))"

definition send_email ::
  "(mime_message \<Rightarrow> exn + string) \<Rightarrow> server \<Rightarrow> send_email_input \<Rightarrow> (exn + string) \<times> server"
where
  "send_email as_raw srv params = try_except (send_email_body as_raw srv params)"

record reply_to_email_input =
  rp_thread_id :: string
  rp_body :: string
  rp_reply_all :: bool
  rp_is_html :: bool

text \<open>
  \<^verbatim>\<open>thread['messages'][0]\<close> raises \<^verbatim>\<open>IndexError\<close> for a thread without messages.
\<close>

definition reply_to_email_body ::
  "(string \<Rightarrow> string) \<Rightarrow> (mime_message \<Rightarrow> exn + string) \<Rightarrow> server \<Rightarrow> reply_to_email_input \<Rightarrow>
   (exn + string) \<times> server"
where
  "reply_to_email_body lower as_raw srv params =
     (case get_gmail_service srv of
        Inl e \<Rightarrow> (Inl e, srv)
      | Inr service \<Rightarrow>
     (case threads_get srv (rp_thread_id params) of
        Inl e \<Rightarrow> (Inl e, srv)
      | Inr thread_messages \<Rightarrow>
     (case thread_messages of
        [] \<Rightarrow> (Inl (PyException ''IndexError'' ''list index out of range''), srv)
      | original_msg # later_messages \<Rightarrow>
     (let hs = headers (m_payload original_msg);
          subject = reply_subject (get_header_value lower hs ''Subject'');
          to_addresses = get_header_value lower hs ''From'';
          cc_addresses = get_header_value lower hs ''Cc'';
          message =
            \<lparr>mime_is_html = rp_is_html params, mime_body = rp_body params,
             mime_headers =
               [(''Subject'', subject),
                (''In-Reply-To'', get_header_value lower hs ''Message-ID''),
                (''References'', get_header_value lower hs ''Message-ID''),
                (''To'', to_addresses)] @
               (if rp_reply_all params \<and> cc_addresses \<noteq> [] then [(''Cc'', cc_addresses)]
                else [])\<rparr>
      in case as_raw message of
           Inl e \<Rightarrow> (Inl e, srv)
         | Inr encoded_message \<Rightarrow>
     (case messages_send srv encoded_message (Some (rp_thread_id params)) of
        (Inl e, srv') \<Rightarrow> (Inl e, srv')
      | (Inr result, srv') \<Rightarrow>
          (Inr (check_mark @ '' Reply sent successfully!\<newline>\<newline>'' @
                ''**Message ID:** '' @ sent_id result @ ''\<newline>'' @
                ''**Thread ID:** '' @ sent_threadId result @ ''\<newline>'' @
                ''**To:** '' @ to_addresses @ ''\<newline>'' @
                ''**Subject:** '' @ subject),
           srv'))))))"

definition reply_to_email ::
  "(string \<Rightarrow> string) \<Rightarrow> (mime_message \<Rightarrow> exn + string) \<Rightarrow> server \<Rightarrow> reply_to_email_input \<Rightarrow>
   (exn + string) \<times> server"
where
  "reply_to_email lower as_raw srv params =
     try_except (reply_to_email_body lower as_raw srv params)"

section \<open>modify_labels\<close>

record modify_labels_input =
  message_ids :: "string list"
  add_labels :: "string list option"
  remove_labels :: "string list option"

text \<open>
  The dictionary of lines 691 and 692: first every name to its identifier, then
  every identifier to itself; a later entry replaces an earlier one with the same key.
\<close>

definition build_label_map :: "label list \<Rightarrow> (string \<rightharpoonup> string)" where
  "build_label_map ls =
     fold (\<lambda>label m. m(l_id label \<mapsto> l_id label)) ls
       (fold (\<lambda>label m. m(l_name label \<mapsto> l_id label)) ls Map.empty)"

definition label_not_found :: "string \<Rightarrow> string" where
  "label_not_found label =
     ''Error: Label '' @ [CHR 0x27] @ label @ [CHR 0x27] @
     '' not found. Use gmail_list_labels to see available labels.''"

text \<open>
  The resolution loop over one list of names. \<open>Inl msg\<close>: the handler returns \<open>msg\<close>
  from inside the loop; \<open>Inr ids\<close>: the loop ends with the identifiers collected.
\<close>

fun resolve_labels :: "(string \<rightharpoonup> string) \<Rightarrow> string list \<Rightarrow> string list \<Rightarrow> string + string list"
where
  "resolve_labels label_map [] ids = Inr ids"
| "resolve_labels label_map (label # rest) ids =
     (case label_map label of
        Some i \<Rightarrow> resolve_labels label_map rest (ids @ [i])
      | None \<Rightarrow> Inl (label_not_found label))"

text \<open>\<^verbatim>\<open>if params.add_labels:\<close> skips the loop for \<^verbatim>\<open>None\<close> and for the empty list.\<close>

definition listed :: "string list option \<Rightarrow> string list" where
  "listed names = (case names of None \<Rightarrow> [] | Some xs \<Rightarrow> xs)"

fun modify_all ::
  "server \<Rightarrow> string list \<Rightarrow> string list option \<times> string list option \<Rightarrow> nat \<Rightarrow> (exn + nat) \<times> server"
where
  "modify_all srv [] body modified_count = (Inr modified_count, srv)"
| "modify_all srv (message_id # rest) body modified_count =
     (case messages_modify srv message_id body of
        (Inl e, srv') \<Rightarrow> (Inl e, srv')
      | (Inr u, srv') \<Rightarrow> modify_all srv' rest body (modified_count + 1))"

definition no_labels_error :: string where
  "no_labels_error = ''Error: No labels to add or remove. Specify at least one label operation.''"

definition modify_labels_body :: "server \<Rightarrow> modify_labels_input \<Rightarrow> (exn + string) \<times> server" where
  "modify_labels_body srv params =
     (case get_gmail_service srv of
        Inl e \<Rightarrow> (Inl e, srv)
      | Inr service \<Rightarrow>
     (case labels_list srv of
        Inl e \<Rightarrow> (Inl e, srv)
      | Inr ls \<Rightarrow>
     (let label_map = build_label_map ls in
      case (if listed (add_labels params) \<noteq> []
            then resolve_labels label_map (listed (add_labels params)) [] else Inr []) of
        Inl msg \<Rightarrow> (Inr msg, srv)
      | Inr add_label_ids \<Rightarrow>
     (case (if listed (remove_labels params) \<noteq> []
            then resolve_labels label_map (listed (remove_labels params)) [] else Inr []) of
        Inl msg \<Rightarrow> (Inr msg, srv)
      | Inr remove_label_ids \<Rightarrow>
     (let body = (if add_label_ids \<noteq> [] then Some add_label_ids else None,
                  if remove_label_ids \<noteq> [] then Some remove_label_ids else None)
      in if body = (None, None) then (Inr no_labels_error, srv)
         else
           (case modify_all srv (message_ids params) body 0 of
              (Inl e, srv') \<Rightarrow> (Inl e, srv')
            | (Inr modified_count, srv') \<Rightarrow>
                (Inr (check_mark @ '' Successfully modified '' @ str_nat modified_count @
                        '' message(s)\<newline>\<newline>'' @
                      (if add_label_ids \<noteq> []
                       then ''**Added labels:** '' @ join '', '' (listed (add_labels params)) @
                            ''\<newline>''
                       else []) @
                      (if remove_label_ids \<noteq> []
                       then ''**Removed labels:** '' @ join '', '' (listed (remove_labels params)) @
                            ''\<newline>''
                       else [])),
                 srv')))))))"

definition modify_labels :: "server \<Rightarrow> modify_labels_input \<Rightarrow> (exn + string) \<times> server" where
  "modify_labels srv params = try_except (modify_labels_body srv params)"

section \<open>archive_emails and delete_emails\<close>

definition archive_emails_body :: "server \<Rightarrow> string list \<Rightarrow> (exn + string) \<times> server" where
  "archive_emails_body srv archive_ids =
     (case get_gmail_service srv of
        Inl e \<Rightarrow> (Inl e, srv)
      | Inr service \<Rightarrow>
     (case modify_all srv archive_ids (None, Some [''INBOX'']) 0 of
        (Inl e, srv') \<Rightarrow> (Inl e, srv')
      | (Inr archived_count, srv') \<Rightarrow>
          (Inr (check_mark @ '' Successfully archived '' @ str_nat archived_count @
                '' message(s)''),
           srv')))"

definition archive_emails :: "server \<Rightarrow> string list \<Rightarrow> (exn + string) \<times> server" where
  "archive_emails srv archive_ids = try_except (archive_emails_body srv archive_ids)"

fun trash_all :: "server \<Rightarrow> string list \<Rightarrow> nat \<Rightarrow> (exn + nat) \<times> server" where
  "trash_all srv [] deleted_count = (Inr deleted_count, srv)"
| "trash_all srv (message_id # rest) deleted_count =
     (case messages_trash srv message_id of
        (Inl e, srv') \<Rightarrow> (Inl e, srv')
      | (Inr u, srv') \<Rightarrow> trash_all srv' rest (deleted_count + 1))"

definition delete_emails_body :: "server \<Rightarrow> string list \<Rightarrow> (exn + string) \<times> server" where
  "delete_emails_body srv delete_ids =
     (case get_gmail_service srv of
        Inl e \<Rightarrow> (Inl e, srv)
      | Inr service \<Rightarrow>
     (case trash_all srv delete_ids 0 of
        (Inl e, srv') \<Rightarrow> (Inl e, srv')
      | (Inr deleted_count, srv') \<Rightarrow>
          (Inr (check_mark @ '' Successfully moved '' @ str_nat deleted_count @
                '' message(s) to trash''),
           srv')))"

definition delete_emails :: "server \<Rightarrow> string list \<Rightarrow> (exn + string) \<times> server" where
  "delete_emails srv delete_ids = try_except (delete_emails_body srv delete_ids)"

section \<open>create_label\<close>

record create_label_input =
  cl_name :: string
  label_list_visibility :: string
  message_list_visibility :: string

text \<open>
  The loop of lines 929 to 931: the first existing label whose lowered name is the
  lowered new name, if there is one. \<open>lower\<close> is \<^verbatim>\<open>str.lower\<close>.
\<close>

fun existing_label :: "(string \<Rightarrow> string) \<Rightarrow> label list \<Rightarrow> string \<Rightarrow> label option" where
  "existing_label lower [] name = None"
| "existing_label lower (label # rest) name =
     (if lower (l_name label) = lower name then Some label
      else existing_label lower rest name)"

definition already_exists :: "string \<Rightarrow> label \<Rightarrow> string" where
  "already_exists name label =
     ''Error: Label '' @ [CHR 0x27] @ name @ [CHR 0x27] @ '' already exists (ID: '' @
     l_id label @ '')''"

definition create_label_body ::
  "(string \<Rightarrow> string) \<Rightarrow> server \<Rightarrow> create_label_input \<Rightarrow> (exn + string) \<times> server"
where
  "create_label_body lower srv params =
     (case get_gmail_service srv of
        Inl e \<Rightarrow> (Inl e, srv)
      | Inr service \<Rightarrow>
     (case labels_list srv of
        Inl e \<Rightarrow> (Inl e, srv)
      | Inr existing_labels \<Rightarrow>
     (case existing_label lower existing_labels (cl_name params) of
        Some label \<Rightarrow> (Inr (already_exists (cl_name params) label), srv)
      | None \<Rightarrow>
     (case labels_create srv (cl_name params) (label_list_visibility params)
             (message_list_visibility params) of
        (Inl e, srv') \<Rightarrow> (Inl e, srv')
      | (Inr result, srv') \<Rightarrow>
          (Inr (check_mark @ '' Label created successfully!\<newline>\<newline>'' @
                ''**Name:** '' @ l_name result @ ''\<newline>'' @
                ''**ID:** '' @ l_id result),
           srv')))))"

definition create_label ::
  "(string \<Rightarrow> string) \<Rightarrow> server \<Rightarrow> create_label_input \<Rightarrow> (exn + string) \<times> server"
where
  "create_label lower srv params = try_except (create_label_body lower srv params)"

section \<open>list_labels\<close>

text \<open>The dictionary of lines 861 to 871, which \<^verbatim>\<open>json.dumps\<close> serialises.\<close>

definition list_labels_json :: "label list \<Rightarrow> json" where
  "list_labels_json ls =
     JObject
       [(''total_labels'', JInt (int (length ls))),
        (''labels'',
         JArray (map (\<lambda>label. JObject [(''id'', JString (l_id label)),
                                        (''name'', JString (l_name label)),
                                        (''type'', JString (l_type label))]) ls))]"

definition label_line :: "label \<Rightarrow> string" where
  "label_line label = ''- **'' @ l_name label @ ''** (`'' @ l_id label @ ''`)\<newline>''"

text \<open>
  One group of lines 881 to 891: nothing for an empty group, else the title, a line for
  each label in the order of \<^verbatim>\<open>sorted(labels, key=lambda x: x['name'])\<close> (a stable sort,
  as \<open>sort_key\<close> is), and an empty line.
\<close>

definition label_group :: "string \<Rightarrow> label list \<Rightarrow> string" where
  "label_group title ls =
     (if ls \<noteq> []
      then ''## '' @ title @ ''\<newline>\<newline>'' @ concat (map label_line (sort_key l_name ls)) @
           ''\<newline>''
      else [])"

definition list_labels_markdown :: "label list \<Rightarrow> string" where
  "list_labels_markdown ls =
     (let output = ''# Gmail Labels\<newline>\<newline>**Total:** '' @ str_nat (length ls) @
                   '' label(s)\<newline>\<newline>'';
          system_labels = filter (\<lambda>l. l_type l = ''system'') ls;
          user_labels = filter (\<lambda>l. l_type l = ''user'') ls
      in output @ label_group ''System Labels'' system_labels @
         label_group ''User Labels'' user_labels)"

definition list_labels_body ::
  "(json \<Rightarrow> string) \<Rightarrow> server \<Rightarrow> response_format \<Rightarrow> (exn + string) \<times> server"
where
  "list_labels_body dumps srv fmt =
     (case get_gmail_service srv of
        Inl e \<Rightarrow> (Inl e, srv)
      | Inr service \<Rightarrow>
     (case labels_list srv of
        Inl e \<Rightarrow> (Inl e, srv)
      | Inr ls \<Rightarrow>
          if ls = [] then (Inr ''No labels found.'', srv)
          else if fmt = JSON then (Inr (dumps (list_labels_json ls)), srv)
          else (Inr (list_labels_markdown ls), srv)))"

definition list_labels ::
  "(json \<Rightarrow> string) \<Rightarrow> server \<Rightarrow> response_format \<Rightarrow> (exn + string) \<times> server"
where
  "list_labels dumps srv fmt = try_except (list_labels_body dumps srv fmt)"

section \<open>The nine handlers\<close>

text \<open>
  The library functions the handlers call on their data: \<^verbatim>\<open>str.lower\<close>,
  \<^verbatim>\<open>json.dumps(..., indent=2)\<close>, and the building and encoding of a MIME message.
\<close>

record library =
  lib_lower :: "string \<Rightarrow> string"
  lib_dumps :: "json \<Rightarrow> string"
  lib_as_raw :: "mime_message \<Rightarrow> exn + string"

text \<open>A call of one of the nine tools, with its validated input.\<close>

datatype call =
    SearchEmails search_emails_input
  | GetEmail get_email_input
  | SendEmail send_email_input
  | ReplyToEmail reply_to_email_input
  | ModifyLabels modify_labels_input
  | ArchiveEmails "string list"
  | DeleteEmails "string list"
  | ListLabels response_format
  | CreateLabel create_label_input

text \<open>The statements under \<^verbatim>\<open>try:\<close> of the tool called.\<close>

fun handler_body :: "library \<Rightarrow> server \<Rightarrow> call \<Rightarrow> (exn + string) \<times> server" where
  "handler_body lib srv (SearchEmails params) =
     search_emails_body (lib_lower lib) (lib_dumps lib) srv params"
| "handler_body lib srv (GetEmail params) =
     get_email_body (lib_lower lib) (lib_dumps lib) srv params"
| "handler_body lib srv (SendEmail params) = send_email_body (lib_as_raw lib) srv params"
| "handler_body lib srv (ReplyToEmail params) =
     reply_to_email_body (lib_lower lib) (lib_as_raw lib) srv params"
| "handler_body lib srv (ModifyLabels params) = modify_labels_body srv params"
| "handler_body lib srv (ArchiveEmails archive_ids) = archive_emails_body srv archive_ids"
| "handler_body lib srv (DeleteEmails delete_ids) = delete_emails_body srv delete_ids"
| "handler_body lib srv (ListLabels fmt) = list_labels_body (lib_dumps lib) srv fmt"
| "handler_body lib srv (CreateLabel params) = create_label_body (lib_lower lib) srv params"

text \<open>The tool called.\<close>

fun handler :: "library \<Rightarrow> server \<Rightarrow> call \<Rightarrow> (exn + string) \<times> server" where
  "handler lib srv (SearchEmails params) =
     search_emails (lib_lower lib) (lib_dumps lib) srv params"
| "handler lib srv (GetEmail params) = get_email (lib_lower lib) (lib_dumps lib) srv params"
| "handler lib srv (SendEmail params) = send_email (lib_as_raw lib) srv params"
| "handler lib srv (ReplyToEmail params) =
     reply_to_email (lib_lower lib) (lib_as_raw lib) srv params"
| "handler lib srv (ModifyLabels params) = modify_labels srv params"
| "handler lib srv (ArchiveEmails archive_ids) = archive_emails srv archive_ids"
| "handler lib srv (DeleteEmails delete_ids) = delete_emails srv delete_ids"
| "handler lib srv (ListLabels fmt) = list_labels (lib_dumps lib) srv fmt"
| "handler lib srv (CreateLabel params) = create_label (lib_lower lib) srv params"

section \<open>An example account\<close>

text \<open>
  An account with one system label and two user labels, listed by the API in the
  order Work, INBOX, Home, and one message, whose body is 501 letters A (the base64
  text of AAA, 167 times); no call fails.
\<close>

definition demo_message :: message where
  "demo_message =
     \<lparr>m_id = ''m1'', threadId = ''t1'',
      m_payload = \<lparr>headers = [], parts = None,
                   payload_body = Some (Some (concat (replicate 167 ''QUFB'')))\<rparr>,
      snippet = None, labelIds = None\<rparr>"

definition demo_server :: server where
  "demo_server =
     \<lparr>token_error = None, labels_list_error = None, modify_error = (\<lambda>message_id. None),
      create_error = None,
      account_labels =
        [\<lparr>l_id = ''Label_2'', l_name = ''Work'', l_type = ''user''\<rparr>,
         \<lparr>l_id = ''INBOX'', l_name = ''INBOX'', l_type = ''system''\<rparr>,
         \<lparr>l_id = ''Label_1'', l_name = ''Home'', l_type = ''user''\<rparr>],
      message_labels = (\<lambda>message_id. {}), next_label_id = ''Label_3'', requests = [],
      messages_list_result = (\<lambda>q max_results. Inr [''m1'']),
      messages_get_result =
        (\<lambda>message_id. if message_id = ''m1'' then Inr demo_message
                        else Inl (HttpError 404 None)),
      threads_get_result =
        (\<lambda>thread_id. if thread_id = ''t1'' then Inr [demo_message]
                       else Inl (HttpError 404 None)),
      trash_error = (\<lambda>message_id. None), send_error = None,
      next_message_id = ''m2'', next_thread_id = ''t2''\<rparr>"

text \<open>
  A library for the examples: the lowering of the letters A to Z, a serialiser that
  prints nothing, and an encoder whose raw message is \<open>raw\<close>.
\<close>

definition demo_library :: library where
  "demo_library =
     \<lparr>lib_lower = str_lower, lib_dumps = (\<lambda>doc. []), lib_as_raw = (\<lambda>message. Inr ''raw'')\<rparr>"

section \<open>Properties\<close>

subsection \<open>Strings\<close>

lemma lower_char_eq_r: "lower_char c = CHR ''r'' \<longleftrightarrow> c = CHR ''R'' \<or> c = CHR ''r''"
  by (simp add: lower_char_def)

lemma lower_char_eq_e: "lower_char c = CHR ''e'' \<longleftrightarrow> c = CHR ''E'' \<or> c = CHR ''e''"
  by (simp add: lower_char_def)

lemma lower_char_eq_colon: "lower_char c = CHR '':'' \<longleftrightarrow> c = CHR '':''"
  by (simp add: lower_char_def)

lemma startswith_lower_re:
  "startswith (str_lower s) ''re:'' = starts_with_re s"
proof (cases s)
  case Nil
  then show ?thesis by (simp add: startswith_def str_lower_def starts_with_re_def)
next
  case (Cons c1 s1)
  note s = this
  show ?thesis
  proof (cases s1)
    case Nil
    with s show ?thesis by (simp add: startswith_def str_lower_def starts_with_re_def)
  next
    case (Cons c2 s2)
    note s1 = this
    show ?thesis
    proof (cases s2)
      case Nil
      with s s1 show ?thesis by (simp add: startswith_def str_lower_def starts_with_re_def)
    next
      case (Cons c3 s3)
      with s s1 show ?thesis
        by (simp add: startswith_def str_lower_def starts_with_re_def
            lower_char_eq_r lower_char_eq_e lower_char_eq_colon)
    qed
  qed
qed

lemma starts_with_re_Re: "starts_with_re (''Re: '' @ s)"
  by (simp add: starts_with_re_def)

subsection \<open>Header lookup\<close>

lemma get_header_value_find:
  "get_header_value lower hs n =
     (case find (\<lambda>h. lower (h_name h) = lower n) hs of
        None \<Rightarrow> []
      | Some h \<Rightarrow> h_value h)"
  by (induction hs) simp_all

lemma get_header_value_none:
  "\<forall>h \<in> set hs. lower (h_name h) \<noteq> lower n \<Longrightarrow> get_header_value lower hs n = []"
  by (induction hs) simp_all

lemma get_header_value_first:
  "i < length hs \<Longrightarrow> lower (h_name (hs ! i)) = lower n \<Longrightarrow>
   \<forall>j < i. lower (h_name (hs ! j)) \<noteq> lower n \<Longrightarrow>
   get_header_value lower hs n = h_value (hs ! i)"
proof (induction hs arbitrary: i)
  case Nil
  then show ?case by simp
next
  case (Cons h hs)
  show ?case
  proof (cases i)
    case 0
    with Cons.prems show ?thesis by simp
  next
    case (Suc k)
    from Cons.prems(3) Suc have h: "lower (h_name h) \<noteq> lower n"
      by auto
    from Cons.prems Suc have "\<forall>j < k. lower (h_name (hs ! j)) \<noteq> lower n"
      by auto
    with Cons.IH [of k] Cons.prems Suc have "get_header_value lower hs n = h_value (hs ! k)"
      by simp
    with h Suc show ?thesis by simp
  qed
qed

text \<open>
  C4. For every header list and every name, \<open>get_header_value\<close> returns the value of
  the first header, in list order, whose name equals the requested name when both are
  lowered by \<^verbatim>\<open>str.lower\<close>: the header at position \<open>i\<close> when no header before it
  matches. When no header matches it returns the empty string. The function is total
  and has no error result. The case mapping is the parameter \<open>lower\<close>: the statement
  holds whatever \<^verbatim>\<open>str.lower\<close> does to a name, in ASCII or not.
\<close>

theorem get_header_value_first_match:
  "get_header_value lower hs n =
     (case find (\<lambda>h. lower (h_name h) = lower n) hs of
        None \<Rightarrow> []
      | Some h \<Rightarrow> h_value h) \<and>
   ((\<forall>h \<in> set hs. lower (h_name h) \<noteq> lower n) \<longrightarrow> get_header_value lower hs n = []) \<and>
   (\<forall>i < length hs. lower (h_name (hs ! i)) = lower n \<longrightarrow>
      (\<forall>j < i. lower (h_name (hs ! j)) \<noteq> lower n) \<longrightarrow>
      get_header_value lower hs n = h_value (hs ! i))"
  using get_header_value_find [of lower hs n] get_header_value_none [of hs lower n]
    get_header_value_first [of _ hs lower n]
  by blast

theorem get_header_value_first_match_witness:
  "get_header_value str_lower
     [\<lparr>h_name = ''To'', h_value = ''a@x.com''\<rparr>,
      \<lparr>h_name = ''SUBJECT'', h_value = ''first''\<rparr>,
      \<lparr>h_name = ''Subject'', h_value = ''second''\<rparr>] ''subject'' = ''first'' \<and>
   get_header_value str_lower [\<lparr>h_name = ''To'', h_value = ''a@x.com''\<rparr>] ''Cc'' = []"
proof -
  let ?hs = "[\<lparr>h_name = ''To'', h_value = ''a@x.com''\<rparr>,
      \<lparr>h_name = ''SUBJECT'', h_value = ''first''\<rparr>,
      \<lparr>h_name = ''Subject'', h_value = ''second''\<rparr>]"
  have a: "(1::nat) < length ?hs" by simp
  have b: "str_lower (h_name (?hs ! 1)) = str_lower ''subject''"
    by (simp add: str_lower_def lower_char_def)
  have c: "\<forall>j < (1::nat). str_lower (h_name (?hs ! j)) \<noteq> str_lower ''subject''"
    by (simp add: str_lower_def lower_char_def)
  have d: "\<forall>h \<in> set [\<lparr>h_name = ''To'', h_value = ''a@x.com''\<rparr>].
      str_lower (h_name h) \<noteq> str_lower ''Cc''"
    by (simp add: str_lower_def lower_char_def)
  from get_header_value_first_match [of str_lower ?hs "''subject''"] a b c
  have "get_header_value str_lower ?hs ''subject'' = h_value (?hs ! 1)" by blast
  moreover from get_header_value_first_match
      [of str_lower "[\<lparr>h_name = ''To'', h_value = ''a@x.com''\<rparr>]" "''Cc''"] d
  have "get_header_value str_lower [\<lparr>h_name = ''To'', h_value = ''a@x.com''\<rparr>] ''Cc'' = []"
    by blast
  ultimately show ?thesis by simp
qed

subsection \<open>Reply subject\<close>

text \<open>
  C5. For every original subject, the reply subject is the subject itself when it
  starts with \<open>Re:\<close> in any letter case, and \<open>Re: \<close> followed by the subject otherwise;
  deriving the reply subject of a reply subject changes nothing.
\<close>

theorem reply_subject_idempotent:
  "reply_subject subject = (if starts_with_re subject then subject else ''Re: '' @ subject) \<and>
   reply_subject (reply_subject subject) = reply_subject subject"
  using starts_with_re_Re [of subject]
  by (simp add: reply_subject_def startswith_lower_re)

lemma reply_subject_examples:
  "reply_subject ''Quarterly Report'' = ''Re: Quarterly Report'' \<and>
   reply_subject ''RE: Quarterly Report'' = ''RE: Quarterly Report'' \<and>
   reply_subject ''Regarding lunch'' = ''Re: Regarding lunch''"
  by (simp add: reply_subject_def startswith_def str_lower_def lower_char_def)

subsection \<open>Handlers\<close>

lemma snd_try_except: "snd (try_except r) = snd r"
  by (cases r) (simp add: try_except_def split: sum.split)

lemma try_except_Inl:
  "try_except (Inl e, s) =
     (if isinstance_Exception e then Inr (handle_api_error e) else Inl e, s)"
  by (simp add: try_except_def)

lemma try_except_Inr: "try_except (Inr out, s) = (Inr out, s)"
  by (simp add: try_except_def)

lemma fst_try_except_Inl:
  "fst (try_except r) = Inl e \<Longrightarrow> \<not> isinstance_Exception e \<and> fst r = Inl e"
  by (cases r) (auto simp: try_except_def split: sum.splits if_splits)

lemma handler_try_except: "handler lib srv c = try_except (handler_body lib srv c)"
  by (cases c)
    (simp_all add: search_emails_def get_email_def send_email_def reply_to_email_def
      modify_labels_def archive_emails_def delete_emails_def list_labels_def create_label_def)

lemma handler_body_token: "token_error srv = Some e \<Longrightarrow> handler_body lib srv c = (Inl e, srv)"
  by (cases c)
    (simp_all add: search_emails_body_def get_email_body_def send_email_body_def
      reply_to_email_body_def modify_labels_body_def archive_emails_body_def
      delete_emails_body_def list_labels_body_def create_label_body_def get_gmail_service_def)

lemma find_append_case:
  "find P (xs @ ys) = (case find P xs of Some x \<Rightarrow> Some x | None \<Rightarrow> find P ys)"
  by (induction xs) simp_all

subsection \<open>Error classifier\<close>

text \<open>
  C2. Each of the nine handlers catches the instances of \<^verbatim>\<open>Exception\<close>: when the
  statements under \<^verbatim>\<open>try:\<close> raise such an \<open>e\<close>, wherever they raise it, the handler
  returns the string \<open>handle_api_error e\<close>, with the state they left, and raises
  nothing; so it does when the session cannot be obtained. An exception that is not an
  instance of \<^verbatim>\<open>Exception\<close> is not caught: the handler raises it, and these are the only
  exceptions a handler raises. The classifier's string is, for an \<open>HttpError\<close> of status
  404, 403, 429 and 400, the text of not-found, of permission-denied, of rate-limited
  and of invalid-request (with the error's details when it has them); for a
  \<open>FileNotFoundError\<close>, the error's own message; for every other exception the text of
  the unknown class: the status, for an \<open>HttpError\<close> of another status, and the class
  name with the message for any other exception.
\<close>

theorem handler_classifies:
  "(handler_body lib srv c = (Inl e, srv') \<and> isinstance_Exception e \<longrightarrow>
      handler lib srv c = (Inr (handle_api_error e), srv')) \<and>
   (handler_body lib srv c = (Inl e, srv') \<and> \<not> isinstance_Exception e \<longrightarrow>
      handler lib srv c = (Inl e, srv')) \<and>
   (handler_body lib srv c = (Inr out, srv') \<longrightarrow> handler lib srv c = (Inr out, srv')) \<and>
   (token_error srv = Some e \<and> isinstance_Exception e \<longrightarrow>
      handler lib srv c = (Inr (handle_api_error e), srv)) \<and>
   (fst (handler lib srv c) = Inl e \<longrightarrow>
      \<not> isinstance_Exception e \<and> fst (handler_body lib srv c) = Inl e) \<and>
   handle_api_error (HttpError 404 details) =
     ''Error: Resource not found. Please check the ID is correct.'' \<and>
   handle_api_error (HttpError 403 details) =
     ''Error: Permission denied. Check your Gmail API permissions.'' \<and>
   handle_api_error (HttpError 429 details) =
     ''Error: Rate limit exceeded. Please wait before making more requests.'' \<and>
   handle_api_error (HttpError 400 (Some d)) = ''Error: Invalid request. '' @ d \<and>
   handle_api_error (HttpError 400 None) = ''Error: Invalid request. Check your parameters.'' \<and>
   (status \<noteq> 404 \<and> status \<noteq> 403 \<and> status \<noteq> 429 \<and> status \<noteq> 400 \<longrightarrow>
      handle_api_error (HttpError status details) =
        ''Error: Gmail API error (status '' @ str_int status @ '')'') \<and>
   handle_api_error (FileNotFoundError msg) = msg \<and>
   handle_api_error (PyException cls msg) = ''Error: '' @ cls @ '': '' @ msg \<and>
   (isinstance_Exception e \<longleftrightarrow>
      (\<exists>status details. e = HttpError status details) \<or> (\<exists>msg. e = FileNotFoundError msg) \<or>
      (\<exists>cls msg. e = PyException cls msg))"
proof (intro conjI impI)
  assume "handler_body lib srv c = (Inl e, srv') \<and> isinstance_Exception e"
  then show "handler lib srv c = (Inr (handle_api_error e), srv')"
    by (simp add: handler_try_except try_except_Inl)
next
  assume "handler_body lib srv c = (Inl e, srv') \<and> \<not> isinstance_Exception e"
  then show "handler lib srv c = (Inl e, srv')"
    by (simp add: handler_try_except try_except_Inl)
next
  assume "handler_body lib srv c = (Inr out, srv')"
  then show "handler lib srv c = (Inr out, srv')"
    by (simp add: handler_try_except try_except_Inr)
next
  assume "token_error srv = Some e \<and> isinstance_Exception e"
  then show "handler lib srv c = (Inr (handle_api_error e), srv)"
    by (simp add: handler_try_except handler_body_token try_except_Inl)
next
  assume a: "fst (handler lib srv c) = Inl e"
  then show "\<not> isinstance_Exception e"
    unfolding handler_try_except by (rule fst_try_except_Inl [THEN conjunct1])
  from a show "fst (handler_body lib srv c) = Inl e"
    unfolding handler_try_except by (rule fst_try_except_Inl [THEN conjunct2])
next
  assume "status \<noteq> 404 \<and> status \<noteq> 403 \<and> status \<noteq> 429 \<and> status \<noteq> 400"
  then show "handle_api_error (HttpError status details) =
      ''Error: Gmail API error (status '' @ str_int status @ '')''"
    by (simp add: handle_api_error_def)
next
  show "isinstance_Exception e \<longleftrightarrow>
      (\<exists>status details. e = HttpError status details) \<or> (\<exists>msg. e = FileNotFoundError msg) \<or>
      (\<exists>cls msg. e = PyException cls msg)"
    by (cases e) simp_all
qed (simp_all add: handle_api_error_def)

text \<open>
  Four failures inside handlers: \<open>get_email\<close> for a message the account does not have
  (status 404), \<open>search_emails\<close> when the listing is refused for its rate (status 429),
  \<open>reply_to_email\<close> for a thread without messages (\<^verbatim>\<open>IndexError\<close>), and \<open>delete_emails\<close>
  when the second of two requests fails with status 500, after the first message is in
  the trash.
\<close>

theorem handler_classifies_witness:
  "handler demo_library demo_server (GetEmail \<lparr>ge_message_id = ''m9'', ge_format = MARKDOWN\<rparr>) =
     (Inr ''Error: Resource not found. Please check the ID is correct.'', demo_server) \<and>
   handler demo_library
     (demo_server\<lparr>messages_list_result := \<lambda>q max_results. Inl (HttpError 429 None)\<rparr>)
     (SearchEmails \<lparr>se_query = ''is:unread'', se_max_results = 10, se_include_body = False,
                    se_format = JSON\<rparr>) =
     (Inr ''Error: Rate limit exceeded. Please wait before making more requests.'',
      demo_server\<lparr>messages_list_result := \<lambda>q max_results. Inl (HttpError 429 None)\<rparr>) \<and>
   handler demo_library (demo_server\<lparr>threads_get_result := \<lambda>thread_id. Inr []\<rparr>)
     (ReplyToEmail \<lparr>rp_thread_id = ''t1'', rp_body = ''Thanks'', rp_reply_all = False,
                    rp_is_html = False\<rparr>) =
     (Inr ''Error: IndexError: list index out of range'',
      demo_server\<lparr>threads_get_result := \<lambda>thread_id. Inr []\<rparr>) \<and>
   handler demo_library
     (demo_server\<lparr>trash_error :=
        \<lambda>message_id. if message_id = ''m2'' then Some (HttpError 500 None) else None\<rparr>)
     (DeleteEmails [''m1'', ''m2'']) =
     (Inr ''Error: Gmail API error (status 500)'',
      demo_server\<lparr>trash_error :=
          \<lambda>message_id. if message_id = ''m2'' then Some (HttpError 500 None) else None,
        requests := [MessagesTrash ''m1'', MessagesTrash ''m2''],
        message_labels := (\<lambda>message_id. {})(''m1'' := {''TRASH''})\<rparr>)"
proof -
  let ?c1 = "GetEmail \<lparr>ge_message_id = ''m9'', ge_format = MARKDOWN\<rparr>"
  let ?s2 = "demo_server\<lparr>messages_list_result := \<lambda>q max_results. Inl (HttpError 429 None)\<rparr>"
  let ?c2 = "SearchEmails \<lparr>se_query = ''is:unread'', se_max_results = 10,
    se_include_body = False, se_format = JSON\<rparr>"
  let ?s3 = "demo_server\<lparr>threads_get_result := \<lambda>thread_id. Inr []\<rparr>"
  let ?c3 = "ReplyToEmail \<lparr>rp_thread_id = ''t1'', rp_body = ''Thanks'', rp_reply_all = False,
    rp_is_html = False\<rparr>"
  let ?s4 = "demo_server\<lparr>trash_error :=
    \<lambda>message_id. if message_id = ''m2'' then Some (HttpError 500 None) else None\<rparr>"
  let ?s4' = "demo_server\<lparr>trash_error :=
      \<lambda>message_id. if message_id = ''m2'' then Some (HttpError 500 None) else None,
    requests := [MessagesTrash ''m1'', MessagesTrash ''m2''],
    message_labels := (\<lambda>message_id. {})(''m1'' := {''TRASH''})\<rparr>"
  have "handler_body demo_library demo_server ?c1 = (Inl (HttpError 404 None), demo_server) \<and>
      isinstance_Exception (HttpError 404 None)"
    by (simp add: get_email_body_def get_gmail_service_def messages_get_def demo_server_def)
  then have "handler demo_library demo_server ?c1 =
      (Inr (handle_api_error (HttpError 404 None)), demo_server)"
    by (rule handler_classifies [THEN conjunct1, THEN mp])
  then have a: "handler demo_library demo_server ?c1 =
      (Inr ''Error: Resource not found. Please check the ID is correct.'', demo_server)"
    by (simp add: handle_api_error_def)
  have "handler_body demo_library ?s2 ?c2 = (Inl (HttpError 429 None), ?s2) \<and>
      isinstance_Exception (HttpError 429 None)"
    by (simp add: search_emails_body_def get_gmail_service_def messages_list_def
        demo_server_def)
  then have "handler demo_library ?s2 ?c2 = (Inr (handle_api_error (HttpError 429 None)), ?s2)"
    by (rule handler_classifies [THEN conjunct1, THEN mp])
  then have b: "handler demo_library ?s2 ?c2 =
      (Inr ''Error: Rate limit exceeded. Please wait before making more requests.'', ?s2)"
    by (simp add: handle_api_error_def)
  have "handler_body demo_library ?s3 ?c3 =
      (Inl (PyException ''IndexError'' ''list index out of range''), ?s3) \<and>
      isinstance_Exception (PyException ''IndexError'' ''list index out of range'')"
    by (simp add: reply_to_email_body_def get_gmail_service_def threads_get_def demo_server_def)
  then have "handler demo_library ?s3 ?c3 =
      (Inr (handle_api_error (PyException ''IndexError'' ''list index out of range'')), ?s3)"
    by (rule handler_classifies [THEN conjunct1, THEN mp])
  then have c: "handler demo_library ?s3 ?c3 =
      (Inr ''Error: IndexError: list index out of range'', ?s3)"
    by (simp add: handle_api_error_def)
  have "handler_body demo_library ?s4 (DeleteEmails [''m1'', ''m2'']) =
      (Inl (HttpError 500 None), ?s4') \<and> isinstance_Exception (HttpError 500 None)"
    by (simp add: delete_emails_body_def get_gmail_service_def messages_trash_def
        demo_server_def)
  then have "handler demo_library ?s4 (DeleteEmails [''m1'', ''m2'']) =
      (Inr (handle_api_error (HttpError 500 None)), ?s4')"
    by (rule handler_classifies [THEN conjunct1, THEN mp])
  then have d: "handler demo_library ?s4 (DeleteEmails [''m1'', ''m2'']) =
      (Inr ''Error: Gmail API error (status 500)'', ?s4')"
    by (simp add: handle_api_error_def str_int_def str_nat.simps)
  from a b c d show ?thesis by (intro conjI)
qed

text \<open>
  C2, the exception that propagates. The user interrupts \<open>search_emails\<close> while the
  listing request runs: \<^verbatim>\<open>KeyboardInterrupt\<close> is not an instance of \<^verbatim>\<open>Exception\<close>, the
  clause \<^verbatim>\<open>except Exception\<close> does not catch it, and the handler raises it to its caller
  instead of returning a string.
\<close>

theorem search_emails_interrupted:
  "handler demo_library
     (demo_server\<lparr>messages_list_result :=
        \<lambda>q max_results. Inl (BaseException ''KeyboardInterrupt'' [])\<rparr>)
     (SearchEmails \<lparr>se_query = ''is:unread'', se_max_results = 10, se_include_body = False,
                    se_format = MARKDOWN\<rparr>) =
   (Inl (BaseException ''KeyboardInterrupt'' []),
    demo_server\<lparr>messages_list_result :=
      \<lambda>q max_results. Inl (BaseException ''KeyboardInterrupt'' [])\<rparr>)"
  by (simp add: search_emails_def search_emails_body_def try_except_def get_gmail_service_def
      messages_list_def demo_server_def)

subsection \<open>modify_labels\<close>

lemma resolve_labels_missing:
  "find (\<lambda>x. m x = None) xs = Some l \<Longrightarrow> resolve_labels m xs ids = Inl (label_not_found l)"
  by (induction xs arbitrary: ids) (auto split: if_splits)

lemma resolve_labels_found:
  "find (\<lambda>x. m x = None) xs = None \<Longrightarrow> \<exists>ids'. resolve_labels m xs ids = Inr ids'"
  by (induction xs arbitrary: ids) (auto split: if_splits)

lemma resolve_labels_guard:
  "(if xs \<noteq> [] then resolve_labels m xs [] else Inr []) = resolve_labels m xs []"
  by (cases xs) simp_all

lemma modify_labels_body_token:
  "token_error srv = Some e \<Longrightarrow> modify_labels_body srv p = (Inl e, srv)"
  by (simp add: modify_labels_body_def get_gmail_service_def)

lemma modify_labels_body_list:
  "token_error srv = None \<Longrightarrow> labels_list_error srv = Some e \<Longrightarrow>
   modify_labels_body srv p = (Inl e, srv)"
  by (simp add: modify_labels_body_def get_gmail_service_def labels_list_def)

lemma modify_labels_body_missing:
  assumes "find (\<lambda>x. build_label_map (account_labels srv) x = None)
             (listed (add_labels p) @ listed (remove_labels p)) = Some l"
    and "token_error srv = None" and "labels_list_error srv = None"
  shows "modify_labels_body srv p = (Inr (label_not_found l), srv)"
proof (cases "find (\<lambda>x. build_label_map (account_labels srv) x = None) (listed (add_labels p))")
  case (Some a)
  with assms(1) have "a = l" by (simp add: find_append_case)
  with Some have "resolve_labels (build_label_map (account_labels srv)) (listed (add_labels p)) []
      = Inl (label_not_found l)"
    by (simp add: resolve_labels_missing)
  with assms(2,3) show ?thesis
    by (simp add: modify_labels_body_def get_gmail_service_def labels_list_def
        resolve_labels_guard)
next
  case None
  with assms(1) have r: "find (\<lambda>x. build_label_map (account_labels srv) x = None)
      (listed (remove_labels p)) = Some l"
    by (simp add: find_append_case)
  from None obtain ids where a: "resolve_labels (build_label_map (account_labels srv))
      (listed (add_labels p)) [] = Inr ids"
    using resolve_labels_found by blast
  from r have "resolve_labels (build_label_map (account_labels srv)) (listed (remove_labels p)) []
      = Inl (label_not_found l)"
    by (simp add: resolve_labels_missing)
  with a assms(2,3) show ?thesis
    by (simp add: modify_labels_body_def get_gmail_service_def labels_list_def
        resolve_labels_guard)
qed


lemma remote_cases:
  obtains e where "token_error srv = Some e"
  | e where "token_error srv = None" and "labels_list_error srv = Some e"
  | "token_error srv = None" and "labels_list_error srv = None"
  by (cases "token_error srv"; cases "labels_list_error srv") auto

text \<open>
  C1. When a name of the add list or of the remove list is not a key of the label map
  built from the account's labels, \<open>modify_labels\<close> leaves the remote state as it was:
  the log of requests holds no new modify request and no message's labels change,
  whatever the message identifiers. When the session and the label list are obtained,
  it returns the text \<^verbatim>\<open>Error: Label '...' not found. Use gmail_list_labels to see
  available labels.\<close> with, between the quotes, the first such name, the add list read
  before the remove list.
\<close>

theorem modify_labels_unknown_label:
  assumes "l \<in> set (listed (add_labels p) @ listed (remove_labels p))"
    and "build_label_map (account_labels srv) l = None"
  shows "snd (modify_labels srv p) = srv \<and>
    requests (snd (modify_labels srv p)) = requests srv \<and>
    message_labels (snd (modify_labels srv p)) = message_labels srv \<and>
    (token_error srv = None \<and> labels_list_error srv = None \<longrightarrow>
      (\<exists>l'. find (\<lambda>x. build_label_map (account_labels srv) x = None)
              (listed (add_labels p) @ listed (remove_labels p)) = Some l' \<and>
            fst (modify_labels srv p) =
              Inr (''Error: Label '' @ [CHR 0x27] @ l' @ [CHR 0x27] @
                   '' not found. Use gmail_list_labels to see available labels.'')))"
proof -
  from assms obtain l' where f: "find (\<lambda>x. build_label_map (account_labels srv) x = None)
      (listed (add_labels p) @ listed (remove_labels p)) = Some l'"
    by (cases "find (\<lambda>x. build_label_map (account_labels srv) x = None)
      (listed (add_labels p) @ listed (remove_labels p))") (auto simp: find_None_iff)
  show ?thesis
  proof (cases srv rule: remote_cases)
    case 1
    then show ?thesis
      by (simp add: modify_labels_def snd_try_except modify_labels_body_token)
  next
    case 2
    then show ?thesis
      by (simp add: modify_labels_def snd_try_except modify_labels_body_list)
  next
    case 3
    with f have "modify_labels_body srv p = (Inr (label_not_found l'), srv)"
      by (simp add: modify_labels_body_missing)
    then have "modify_labels srv p = (Inr (label_not_found l'), srv)"
      by (simp add: modify_labels_def try_except_def)
    with f show ?thesis by (simp add: label_not_found_def)
  qed
qed

text \<open>
  The account has the label Work and no label Urgent: nothing is requested for the
  message, and the error names Urgent.
\<close>

theorem modify_labels_unknown_label_witness:
  "modify_labels demo_server
     \<lparr>message_ids = [''m1''], add_labels = Some [''Work'', ''Urgent''], remove_labels = None\<rparr> =
   (Inr (''Error: Label '' @ [CHR 0x27] @ ''Urgent'' @ [CHR 0x27] @
         '' not found. Use gmail_list_labels to see available labels.''),
    demo_server)"
proof -
  let ?p = "\<lparr>message_ids = [''m1''], add_labels = Some [''Work'', ''Urgent''],
    remove_labels = None\<rparr>"
  have a: "''Urgent'' \<in> set (listed (add_labels ?p) @ listed (remove_labels ?p))"
    by (simp add: listed_def)
  have b: "build_label_map (account_labels demo_server) ''Urgent'' = None"
    by (simp add: demo_server_def build_label_map_def)
  have c: "token_error demo_server = None \<and> labels_list_error demo_server = None"
    by (simp add: demo_server_def)
  have d: "find (\<lambda>x. build_label_map (account_labels demo_server) x = None)
      (listed (add_labels ?p) @ listed (remove_labels ?p)) = Some ''Urgent''"
    by (simp add: demo_server_def build_label_map_def listed_def)
  from modify_labels_unknown_label [OF a b] c d
  have "snd (modify_labels demo_server ?p) = demo_server \<and>
      fst (modify_labels demo_server ?p) =
        Inr (''Error: Label '' @ [CHR 0x27] @ ''Urgent'' @ [CHR 0x27] @
             '' not found. Use gmail_list_labels to see available labels.'')"
    by auto
  then show ?thesis by (simp add: prod_eq_iff)
qed



text \<open>
  With labels the account has, \<open>modify_labels\<close> does issue the request: one message
  gets the label Work and loses INBOX.
\<close>

lemma modify_labels_success:
  "modify_labels demo_server
     \<lparr>message_ids = [''m1''], add_labels = Some [''Work''], remove_labels = Some [''INBOX'']\<rparr> =
   (Inr (check_mark @ '' Successfully modified 1 message(s)\<newline>\<newline>**Added labels:** Work\<newline>**Removed labels:** INBOX\<newline>''),
    demo_server\<lparr>requests := [MessagesModify ''m1'' (Some [''Label_2'']) (Some [''INBOX''])],
      message_labels := (\<lambda>message_id. {})(''m1'' := {''Label_2''})\<rparr>)"
  by (simp add: modify_labels_def modify_labels_body_def try_except_def get_gmail_service_def
      labels_list_def demo_server_def build_label_map_def listed_def messages_modify_def
      str_nat.simps)

subsection \<open>The label map\<close>

lemma fold_upd_snoc:
  "fold (\<lambda>l m. m(f l \<mapsto> g l)) (ls @ [a]) m0 = (fold (\<lambda>l m. m(f l \<mapsto> g l)) ls m0)(f a \<mapsto> g a)"
  by simp

lemma fold_upd_other:
  "k \<notin> f ` set ls \<Longrightarrow> fold (\<lambda>l m. m(f l \<mapsto> g l)) ls m0 k = m0 k"
proof (induction ls arbitrary: m0)
  case Nil
  then show ?case by simp
next
  case (Cons a ls)
  from Cons.prems have "k \<noteq> f a" "k \<notin> f ` set ls" by auto
  with Cons.IH [of "m0(f a \<mapsto> g a)"] show ?case by simp
qed

lemma fold_upd_in:
  "l \<in> set ls \<Longrightarrow> \<forall>l' \<in> set ls. f l' = f l \<longrightarrow> g l' = g l \<Longrightarrow>
   fold (\<lambda>l m. m(f l \<mapsto> g l)) ls m0 (f l) = Some (g l)"
proof (induction ls rule: rev_induct)
  case Nil
  then show ?case by simp
next
  case (snoc a ls)
  show ?case
  proof (cases "f a = f l")
    case True
    with snoc.prems(2) have "g a = g l" by simp
    with True show ?thesis by (simp only: fold_upd_snoc fun_upd_same)
  next
    case False
    with snoc.prems(1) have "l \<in> set ls" by auto
    moreover from snoc.prems(2) have "\<forall>l' \<in> set ls. f l' = f l \<longrightarrow> g l' = g l" by simp
    ultimately have ih: "fold (\<lambda>l m. m(f l \<mapsto> g l)) ls m0 (f l) = Some (g l)"
      by (rule snoc.IH)
    from False have ne: "f l \<noteq> f a" by auto
    have "fold (\<lambda>l m. m(f l \<mapsto> g l)) (ls @ [a]) m0 (f l) =
        ((fold (\<lambda>l m. m(f l \<mapsto> g l)) ls m0)(f a \<mapsto> g a)) (f l)"
      by (simp only: fold_upd_snoc)
    also from ne have "\<dots> = fold (\<lambda>l m. m(f l \<mapsto> g l)) ls m0 (f l)"
      by (rule fun_upd_other)
    finally show ?thesis using ih by (rule trans)
  qed
qed

lemma build_label_map_id:
  assumes "l \<in> set ls"
  shows "build_label_map ls (l_id l) = Some (l_id l)"
proof -
  have "\<forall>l' \<in> set ls. l_id l' = l_id l \<longrightarrow> l_id l' = l_id l" by simp
  with assms show ?thesis
    unfolding build_label_map_def by (rule fold_upd_in)
qed

lemma build_label_map_name:
  assumes "l \<in> set ls"
    and "\<forall>l' \<in> set ls. l_id l' = l_name l \<or> l_name l' = l_name l \<longrightarrow> l_id l' = l_id l"
  shows "build_label_map ls (l_name l) = Some (l_id l)"
proof (cases "l_name l \<in> l_id ` set ls")
  case True
  then obtain l' where l': "l' \<in> set ls" "l_id l' = l_name l" by auto
  with assms(2) have "l_name l = l_id l" by auto
  with build_label_map_id [OF assms(1)] show ?thesis by simp
next
  case False
  from assms(2) have "\<forall>l' \<in> set ls. l_name l' = l_name l \<longrightarrow> l_id l' = l_id l" by blast
  with assms(1)
  have "fold (\<lambda>l m. m(l_name l \<mapsto> l_id l)) ls Map.empty (l_name l) = Some (l_id l)"
    by (rule fold_upd_in)
  moreover from False have "build_label_map ls (l_name l) =
      fold (\<lambda>l m. m(l_name l \<mapsto> l_id l)) ls Map.empty (l_name l)"
    unfolding build_label_map_def by (rule fold_upd_other)
  ultimately show ?thesis by (rule trans [rotated])
qed

text \<open>
  C6, as the code has it. For every label of the list, its identifier resolves to
  itself. Its display name resolves to its identifier when every label of the list
  whose identifier is that name, or whose display name is that name, has the same
  identifier: an identifier equal to the name takes the entry of the name, and of two
  labels with one name the later one takes it.
\<close>

theorem build_label_map_resolves:
  "l \<in> set ls \<Longrightarrow>
   build_label_map ls (l_id l) = Some (l_id l) \<and>
   ((\<forall>l' \<in> set ls. l_id l' = l_name l \<or> l_name l' = l_name l \<longrightarrow> l_id l' = l_id l) \<longrightarrow>
      build_label_map ls (l_name l) = Some (l_id l))"
  using build_label_map_id build_label_map_name by blast

theorem build_label_map_resolves_witness:
  "build_label_map (account_labels demo_server) ''Label_2'' = Some ''Label_2'' \<and>
   build_label_map (account_labels demo_server) ''Work'' = Some ''Label_2''"
proof -
  let ?l = "\<lparr>l_id = ''Label_2'', l_name = ''Work'', l_type = ''user''\<rparr>"
  have a: "?l \<in> set (account_labels demo_server)"
    by (simp add: demo_server_def)
  have b: "\<forall>l' \<in> set (account_labels demo_server).
      l_id l' = l_name ?l \<or> l_name l' = l_name ?l \<longrightarrow> l_id l' = l_id ?l"
    by (simp add: demo_server_def)
  from build_label_map_resolves [OF a] b show ?thesis by simp
qed

text \<open>
  The claim as stated fails for a label whose display name is the identifier of another
  label: the first label below has the identifier \<open>Label_1\<close>, and its display name
  \<open>Label_2\<close> resolves to \<open>Label_2\<close>, the second label.
\<close>

theorem build_label_map_name_collision:
  "build_label_map
     [\<lparr>l_id = ''Label_1'', l_name = ''Label_2'', l_type = ''user''\<rparr>,
      \<lparr>l_id = ''Label_2'', l_name = ''Work'', l_type = ''user''\<rparr>] ''Label_1'' = Some ''Label_1'' \<and>
   build_label_map
     [\<lparr>l_id = ''Label_1'', l_name = ''Label_2'', l_type = ''user''\<rparr>,
      \<lparr>l_id = ''Label_2'', l_name = ''Work'', l_type = ''user''\<rparr>] ''Label_2'' = Some ''Label_2''"
  by (simp add: build_label_map_def)

subsection \<open>create_label\<close>

lemma existing_label_find:
  "existing_label lower ls name = find (\<lambda>l. lower (l_name l) = lower name) ls"
  by (induction ls) simp_all

lemma create_label_body_token:
  "token_error srv = Some e \<Longrightarrow> create_label_body lower srv p = (Inl e, srv)"
  by (simp add: create_label_body_def get_gmail_service_def)

lemma create_label_body_list:
  "token_error srv = None \<Longrightarrow> labels_list_error srv = Some e \<Longrightarrow>
   create_label_body lower srv p = (Inl e, srv)"
  by (simp add: create_label_body_def get_gmail_service_def labels_list_def)

lemma create_label_body_existing:
  "token_error srv = None \<Longrightarrow> labels_list_error srv = None \<Longrightarrow>
   existing_label lower (account_labels srv) (cl_name p) = Some l \<Longrightarrow>
   create_label_body lower srv p = (Inr (already_exists (cl_name p) l), srv)"
  by (simp add: create_label_body_def get_gmail_service_def labels_list_def)

text \<open>
  C7. \<open>lower\<close> is \<^verbatim>\<open>str.lower\<close>, whatever it does to a text. When the lowered new name
  equals the lowered display name of an existing label, \<open>create_label\<close> leaves the
  remote state as it was: the log of requests holds no create request and the labels of
  the account are unchanged. When the session and the label list are obtained, it
  returns the text \<^verbatim>\<open>Error: Label '...' already exists (ID: ...)\<close>, with the new name as
  given between the quotes, and the identifier of the first such label of the list.
\<close>

theorem create_label_duplicate:
  assumes "l \<in> set (account_labels srv)"
    and "lower (l_name l) = lower (cl_name p)"
  shows "snd (create_label lower srv p) = srv \<and>
    requests (snd (create_label lower srv p)) = requests srv \<and>
    account_labels (snd (create_label lower srv p)) = account_labels srv \<and>
    (token_error srv = None \<and> labels_list_error srv = None \<longrightarrow>
      (\<exists>l'. find (\<lambda>x. lower (l_name x) = lower (cl_name p)) (account_labels srv) = Some l' \<and>
            fst (create_label lower srv p) =
              Inr (''Error: Label '' @ [CHR 0x27] @ cl_name p @ [CHR 0x27] @
                   '' already exists (ID: '' @ l_id l' @ '')'')))"
proof -
  from assms obtain l' where f: "existing_label lower (account_labels srv) (cl_name p) = Some l'"
    by (cases "existing_label lower (account_labels srv) (cl_name p)")
      (auto simp: existing_label_find find_None_iff)
  show ?thesis
  proof (cases srv rule: remote_cases)
    case 1
    then show ?thesis by (simp add: create_label_def create_label_body_token snd_try_except)
  next
    case 2
    then show ?thesis by (simp add: create_label_def create_label_body_list snd_try_except)
  next
    case 3
    with f have "create_label_body lower srv p = (Inr (already_exists (cl_name p) l'), srv)"
      by (simp add: create_label_body_existing)
    then have "create_label lower srv p = (Inr (already_exists (cl_name p) l'), srv)"
      by (simp add: create_label_def try_except_def)
    with f show ?thesis by (simp add: existing_label_find already_exists_def)
  qed
qed

text \<open>
  The account has the label Work, with the identifier \<open>Label_2\<close>; the new name is WORK.
  Then a name outside ASCII, with a \<open>lower\<close> that knows the letter: the account has the
  label \<^verbatim>\<open>\xc3\x89t\xc3\xa9\<close> (the bytes of the name written with a capital E acute),
  and the new name is \<^verbatim>\<open>\xc3\xa9t\xc3\xa9\<close>.
\<close>

theorem create_label_duplicate_witness:
  "create_label str_lower demo_server
     \<lparr>cl_name = ''WORK'', label_list_visibility = ''labelShow'',
      message_list_visibility = ''show''\<rparr> =
   (Inr (''Error: Label '' @ [CHR 0x27] @ ''WORK'' @ [CHR 0x27] @
         '' already exists (ID: Label_2)''),
    demo_server) \<and>
   fst (create_label
          (\<lambda>s. if s = [CHR 0xC3, CHR 0x89, CHR ''t'', CHR 0xC3, CHR 0xA9]
                then [CHR 0xC3, CHR 0xA9, CHR ''t'', CHR 0xC3, CHR 0xA9] else str_lower s)
          (demo_server\<lparr>account_labels :=
             [\<lparr>l_id = ''Label_7'', l_name = [CHR 0xC3, CHR 0x89, CHR ''t'', CHR 0xC3, CHR 0xA9],
               l_type = ''user''\<rparr>]\<rparr>)
          \<lparr>cl_name = [CHR 0xC3, CHR 0xA9, CHR ''t'', CHR 0xC3, CHR 0xA9],
           label_list_visibility = ''labelShow'', message_list_visibility = ''show''\<rparr>) =
   Inr (''Error: Label '' @ [CHR 0x27] @ [CHR 0xC3, CHR 0xA9, CHR ''t'', CHR 0xC3, CHR 0xA9] @
        [CHR 0x27] @ '' already exists (ID: Label_7)'')"
proof -
  let ?p = "\<lparr>cl_name = ''WORK'', label_list_visibility = ''labelShow'',
      message_list_visibility = ''show''\<rparr>"
  let ?l = "\<lparr>l_id = ''Label_2'', l_name = ''Work'', l_type = ''user''\<rparr>"
  let ?lower = "\<lambda>s. if s = [CHR 0xC3, CHR 0x89, CHR ''t'', CHR 0xC3, CHR 0xA9]
                then [CHR 0xC3, CHR 0xA9, CHR ''t'', CHR 0xC3, CHR 0xA9] else str_lower s"
  let ?l2 = "\<lparr>l_id = ''Label_7'', l_name = [CHR 0xC3, CHR 0x89, CHR ''t'', CHR 0xC3, CHR 0xA9],
               l_type = ''user''\<rparr>"
  let ?s2 = "demo_server\<lparr>account_labels := [?l2]\<rparr>"
  let ?p2 = "\<lparr>cl_name = [CHR 0xC3, CHR 0xA9, CHR ''t'', CHR 0xC3, CHR 0xA9],
           label_list_visibility = ''labelShow'', message_list_visibility = ''show''\<rparr>"
  have a: "?l \<in> set (account_labels demo_server)"
    by (simp add: demo_server_def)
  have b: "str_lower (l_name ?l) = str_lower (cl_name ?p)"
    by (simp add: str_lower_def lower_char_def)
  have c: "token_error demo_server = None \<and> labels_list_error demo_server = None"
    by (simp add: demo_server_def)
  have d: "find (\<lambda>x. str_lower (l_name x) = str_lower (cl_name ?p))
      (account_labels demo_server) = Some ?l"
    by (simp add: demo_server_def str_lower_def lower_char_def)
  from create_label_duplicate [OF a b] c d
  have "snd (create_label str_lower demo_server ?p) = demo_server \<and>
      fst (create_label str_lower demo_server ?p) =
        Inr (''Error: Label '' @ [CHR 0x27] @ ''WORK'' @ [CHR 0x27] @
             '' already exists (ID: Label_2)'')"
    by auto
  then have first: "create_label str_lower demo_server ?p =
      (Inr (''Error: Label '' @ [CHR 0x27] @ ''WORK'' @ [CHR 0x27] @
            '' already exists (ID: Label_2)''), demo_server)"
    by (simp add: prod_eq_iff)
  have a2: "?l2 \<in> set (account_labels ?s2)"
    by simp
  have b2: "?lower (l_name ?l2) = ?lower (cl_name ?p2)"
    by (simp add: str_lower_def lower_char_def)
  have c2: "token_error ?s2 = None \<and> labels_list_error ?s2 = None"
    by (simp add: demo_server_def)
  have d2: "find (\<lambda>x. ?lower (l_name x) = ?lower (cl_name ?p2)) (account_labels ?s2) = Some ?l2"
    by (simp add: str_lower_def lower_char_def)
  from create_label_duplicate [of ?l2 ?s2 ?lower ?p2, OF a2 b2] c2 d2
  have second: "fst (create_label ?lower ?s2 ?p2) =
      Inr (''Error: Label '' @ [CHR 0x27] @ [CHR 0xC3, CHR 0xA9, CHR ''t'', CHR 0xC3, CHR 0xA9] @
           [CHR 0x27] @ '' already exists (ID: Label_7)'')"
    by auto
  from first second show ?thesis by (rule conjI)
qed

text \<open>With a new name, \<open>create_label\<close> does issue the request.\<close>

lemma create_label_success:
  "create_label str_lower demo_server
     \<lparr>cl_name = ''Travel'', label_list_visibility = ''labelShow'',
      message_list_visibility = ''show''\<rparr> =
   (Inr (check_mark @ '' Label created successfully!\<newline>\<newline>**Name:** Travel\<newline>**ID:** Label_3''),
    demo_server\<lparr>requests := [LabelsCreate ''Travel'' ''labelShow'' ''show''],
      account_labels := account_labels demo_server @
        [\<lparr>l_id = ''Label_3'', l_name = ''Travel'', l_type = ''user''\<rparr>]\<rparr>)"
  by (simp add: create_label_def create_label_body_def try_except_def get_gmail_service_def
      labels_list_def demo_server_def labels_create_def str_lower_def lower_char_def Let_def)

subsection \<open>list_labels\<close>







subsection \<open>Body decoding\<close>

lemma char_of_65: "char_of (65::nat) = CHR ''A''"
  by code_simp

lemma b64_value_Q: "b64_value (CHR ''Q'') = Some 16"
  by code_simp

lemma b64_value_U: "b64_value (CHR ''U'') = Some 20"
  by code_simp

lemma b64_value_F: "b64_value (CHR ''F'') = Some 5"
  by code_simp

lemma b64_value_B: "b64_value (CHR ''B'') = Some 1"
  by code_simp

lemma a2b_base64_QUFB:
  "a2b_base64 (''QUFB'' @ rest) 0 leftchar pads bin_data =
   a2b_base64 rest 0 0 0 (bin_data @ ''AAA'')"
  by (simp add: b64_value_Q b64_value_U b64_value_F b64_value_B char_of_65)

lemma a2b_base64_replicate_QUFB:
  "a2b_base64 (concat (replicate n ''QUFB'') @ rest) 0 0 0 bin_data =
   a2b_base64 rest 0 0 0 (bin_data @ replicate (3 * n) (CHR ''A''))"
proof (induction n arbitrary: bin_data)
  case 0
  then show ?case by simp
next
  case (Suc n)
  have "a2b_base64 (concat (replicate (Suc n) ''QUFB'') @ rest) 0 0 0 bin_data =
      a2b_base64 (''QUFB'' @ (concat (replicate n ''QUFB'') @ rest)) 0 0 0 bin_data"
    by simp
  also have "\<dots> = a2b_base64 (concat (replicate n ''QUFB'') @ rest) 0 0 0 (bin_data @ ''AAA'')"
    by (rule a2b_base64_QUFB)
  also have "\<dots> = a2b_base64 rest 0 0 0 ((bin_data @ ''AAA'') @ replicate (3 * n) (CHR ''A''))"
    by (rule Suc.IH)
  also have "(bin_data @ ''AAA'') @ replicate (3 * n) (CHR ''A'') =
      bin_data @ replicate (3 * Suc n) (CHR ''A'')"
  proof -
    have "replicate (3 * Suc n) (CHR ''A'') =
        replicate 3 (CHR ''A'') @ replicate (3 * n) (CHR ''A'')"
      by (simp add: replicate_add [symmetric])
    moreover have "replicate 3 (CHR ''A'') = ''AAA''"
      by (simp add: numeral_3_eq_3)
    ultimately show ?thesis by simp
  qed
  finally show ?case .
qed

lemma utf8_scan_ascii: "\<forall>c \<in> set s. c \<le> CHR 0x7F \<Longrightarrow> utf8_scan pos s = None"
  by (induction s arbitrary: pos) simp_all

text \<open>The base64 text of \<open>3 * n\<close> letters A.\<close>

lemma b64_text_replicate_QUFB:
  "b64_text (concat (replicate n ''QUFB'')) = Inr (replicate (3 * n) (CHR ''A''))"
proof -
  have "\<forall>c \<in> set (concat (replicate n ''QUFB'')). \<not> CHR 0x7F < c"
    by (cases n) auto
  moreover have "map urlsafe_translate (concat (replicate n ''QUFB'')) = concat (replicate n ''QUFB'')"
    by (induction n) (simp_all add: urlsafe_translate_def)
  moreover have "a2b_base64 (concat (replicate n ''QUFB'') @ []) 0 0 0 [] =
      a2b_base64 [] 0 0 0 ([] @ replicate (3 * n) (CHR ''A''))"
    by (rule a2b_base64_replicate_QUFB)
  ultimately have "urlsafe_b64decode (concat (replicate n ''QUFB'')) = Inr (replicate (3 * n) (CHR ''A''))"
    by (simp add: urlsafe_b64decode_def)
  moreover have "utf8_scan 0 (replicate (3 * n) (CHR ''A'')) = None"
    by (rule utf8_scan_ascii) simp
  ultimately show ?thesis by (simp add: b64_text_def decode_utf8_def)
qed

text \<open>
  Data that lacks a padding character, data that decodes to the byte 0xFF, data with a
  character outside ASCII (the two bytes of a small e acute), and well-formed data.
\<close>

lemma b64_text_truncated:
  "b64_text ''SGVsbG8'' = Inl (PyException ''Error'' ''Incorrect padding'')"
  by code_simp

lemma b64_text_not_utf8:
  "b64_text ''_w=='' =
     Inl (PyException ''UnicodeDecodeError''
           ([CHR 0x27] @ ''utf-8'' @ [CHR 0x27] @ '' codec can'' @ [CHR 0x27] @
            ''t decode byte 0xff in position 0: invalid start byte''))"
  by code_simp

lemma b64_text_not_ascii:
  "b64_text [CHR 0xC3, CHR 0xA9] =
     Inl (PyException ''ValueError'' ''string argument should contain only ASCII characters'')"
  by code_simp

lemma b64_text_Hello: "b64_text ''SGVsbG8='' = Inr ''Hello''"
  by code_simp

text \<open>The exceptions of the library call, by class name.\<close>

lemma a2b_base64_error:
  "a2b_base64 s quad_pos leftchar pads bin_data = Inl e \<Longrightarrow> \<exists>msg. e = PyException ''Error'' msg"
proof (induction s arbitrary: quad_pos leftchar pads bin_data)
  case Nil
  then show ?case by (auto split: if_splits)
next
  case (Cons this_ch rest)
  show ?case
  proof (cases "this_ch = CHR ''=''")
    case True
    with Cons.prems have "\<exists>q l p b. a2b_base64 rest q l p b = Inl e"
      by (auto split: if_splits)
    with Cons.IH show ?thesis by blast
  next
    case False
    with Cons.prems have "\<exists>q l p b. a2b_base64 rest q l p b = Inl e"
      by (cases "b64_value this_ch") (auto split: if_splits)
    with Cons.IH show ?thesis by blast
  qed
qed

lemma b64_text_error:
  assumes "b64_text d = Inl e"
  shows "\<exists>cls msg. e = PyException cls msg \<and>
    (cls = ''ValueError'' \<or> cls = ''Error'' \<or> cls = ''UnicodeDecodeError'')"
proof (cases "urlsafe_b64decode d")
  case (Inl e')
  with assms have e: "e' = e" by (simp add: b64_text_def)
  show ?thesis
  proof (cases "\<exists>c \<in> set d. CHR 0x7F < c")
    case True
    with Inl e show ?thesis by (auto simp: urlsafe_b64decode_def)
  next
    case False
    with Inl e have "a2b_base64 (map urlsafe_translate d) 0 0 0 [] = Inl e"
      by (simp add: urlsafe_b64decode_def)
    then show ?thesis using a2b_base64_error by blast
  qed
next
  case (Inr bs)
  with assms have "decode_utf8 bs = Inl e" by (simp add: b64_text_def)
  then show ?thesis
    by (auto simp: decode_utf8_def unicode_decode_error_def split: option.splits prod.splits)
qed

text \<open>
  A part the loop passes over without decoding, while no body has been found: it has
  no data, or it is neither \<^verbatim>\<open>text/plain\<close> nor \<^verbatim>\<open>text/html\<close>.
\<close>

lemma decode_parts_skip:
  "\<forall>q \<in> set skipped. part_data q = None \<or>
      (mimeType q \<noteq> ''text/plain'' \<and> mimeType q \<noteq> ''text/html'') \<Longrightarrow>
   decode_parts (skipped @ rest) [] = decode_parts rest []"
  by (induction skipped) auto

lemma decode_parts_first:
  assumes "\<forall>q \<in> set skipped. part_data q = None \<or>
      (mimeType q \<noteq> ''text/plain'' \<and> mimeType q \<noteq> ''text/html'')"
    and "mimeType p = ''text/plain'' \<or> mimeType p = ''text/html''"
    and "part_data p = Some d" and "b64_text d = Inl e"
  shows "decode_parts (skipped @ p # rest) [] = Inl e"
proof -
  from assms(1) have "decode_parts (skipped @ p # rest) [] = decode_parts (p # rest) []"
    by (rule decode_parts_skip)
  also from assms(2-4) have "\<dots> = Inl e" by auto
  finally show ?thesis .
qed

lemma decode_parts_error:
  "decode_parts ps found = Inl e \<Longrightarrow>
   \<exists>p \<in> set ps. \<exists>d. part_data p = Some d \<and> b64_text d = Inl e"
proof (induction ps arbitrary: found)
  case Nil
  then show ?case by simp
next
  case (Cons p ps)
  show ?case
  proof (cases "\<exists>d. part_data p = Some d \<and> b64_text d = Inl e")
    case True
    then show ?thesis by auto
  next
    case False
    with Cons.prems obtain t where "decode_parts ps t = Inl e"
      by (auto split: if_splits option.splits sum.splits)
    with Cons.IH show ?thesis by auto
  qed
qed

lemma decode_message_body_error:
  assumes "decode_message_body p = Inl e"
  shows "\<exists>d. b64_text d = Inl e \<and>
    (payload_body p = Some (Some d) \<or>
     (\<exists>ps. parts p = Some ps \<and> (\<exists>q \<in> set ps. part_data q = Some d)))"
proof (cases "parts p")
  case None
  with assms show ?thesis
    by (auto simp add: decode_message_body_def split: option.splits)
next
  case (Some ps)
  with assms have "decode_parts ps [] = Inl e"
    by (simp add: decode_message_body_def)
  then obtain q d where "q \<in> set ps" "part_data q = Some d" "b64_text d = Inl e"
    using decode_parts_error by blast
  with Some show ?thesis by blast
qed

text \<open>The handlers that decode a body, when the decoding raises.\<close>

lemma get_email_decode_error:
  assumes "token_error srv = None"
    and "messages_get_result srv (ge_message_id params) = Inr msg"
    and "decode_message_body (m_payload msg) = Inl e"
  shows "get_email_body lower dumps srv params = (Inl e, srv)"
  using assms
  by (simp add: get_email_body_def get_gmail_service_def messages_get_def
      get_email_json_def get_email_markdown_def)

lemma search_entries_decode_error:
  assumes "\<forall>b \<in> set earlier. \<exists>t. decode_message_body (m_payload b) = Inr t"
    and "decode_message_body (m_payload m) = Inl e"
  shows "search_entries lower i (earlier @ m # later) True out = Inl e"
  using assms(1)
proof (induction earlier arbitrary: i out)
  case Nil
  from assms(2) show ?case by (simp add: search_entry_def)
next
  case (Cons b earlier)
  from Cons.prems obtain t where "decode_message_body (m_payload b) = Inr t" by auto
  then obtain entry where "search_entry lower i b True = Inr entry"
    by (simp add: search_entry_def)
  moreover from Cons.prems
  have "search_entries lower (i + 1) (earlier @ m # later) True (out @ entry) = Inl e"
    by (intro Cons.IH) simp
  ultimately show ?case by simp
qed

lemma message_infos_decode_error:
  assumes "\<forall>b \<in> set earlier. \<exists>t. decode_message_body (m_payload b) = Inr t"
    and "decode_message_body (m_payload m) = Inl e"
  shows "message_infos lower (earlier @ m # later) True infos = Inl e"
  using assms(1)
proof (induction earlier arbitrary: infos)
  case Nil
  from assms(2) show ?case by (simp add: message_info_def)
next
  case (Cons b earlier)
  from Cons.prems obtain t where "decode_message_body (m_payload b) = Inr t" by auto
  then obtain info where "message_info lower b True = Inr info"
    by (simp add: message_info_def Let_def)
  moreover from Cons.prems
  have "message_infos lower (earlier @ m # later) True (infos @ [info]) = Inl e"
    by (intro Cons.IH) simp
  ultimately show ?case by simp
qed

lemma search_emails_decode_error:
  assumes "token_error srv = None"
    and "messages_list_result srv (se_query params) (se_max_results params) = Inr ids"
    and "ids \<noteq> []" and "se_include_body params"
    and "fetch_messages srv ids ''full'' [] = Inr (earlier @ m # later)"
    and "\<forall>b \<in> set earlier. \<exists>t. decode_message_body (m_payload b) = Inr t"
    and "decode_message_body (m_payload m) = Inl e"
  shows "search_emails_body lower dumps srv params = (Inl e, srv)"
proof (cases "se_format params = JSON")
  case True
  from assms(6,7)
  have "message_infos lower (earlier @ m # later) True [] = Inl e"
    by (rule message_infos_decode_error)
  with True assms(1-5) show ?thesis
    by (simp add: search_emails_body_def get_gmail_service_def messages_list_def
        search_emails_json_def)
next
  case False
  from assms(6,7)
  have "\<And>out. search_entries lower 1 (earlier @ m # later) True out = Inl e"
    by (rule search_entries_decode_error)
  with False assms(1-5) show ?thesis
    by (simp add: search_emails_body_def get_gmail_service_def messages_list_def
        search_emails_markdown_def)
qed

text \<open>
  C3, as the code has it. Data is malformed when the library call raises for it:
  \<^verbatim>\<open>ValueError\<close> for a character outside ASCII, \<^verbatim>\<open>binascii.Error\<close> (class name \<open>Error\<close>) for
  a wrong count of characters or a wrong padding, \<^verbatim>\<open>UnicodeDecodeError\<close> for bytes that
  are not UTF-8. That exception leaves \<open>decode_message_body\<close>: for a payload without
  parts whose body data is malformed, and for a payload with parts when the first part
  to be decoded (a \<^verbatim>\<open>text/plain\<close> or \<^verbatim>\<open>text/html\<close> part with data, after parts that are
  passed over) has malformed data. An exception of \<open>decode_message_body\<close> always is the
  exception of some data of the payload, of one of the three classes. The handlers
  that decode bodies catch it: \<open>get_email\<close>, and \<open>search_emails\<close> with bodies at the
  first message that does not decode, return \<^verbatim>\<open>Error: <class name>: <message>\<close> and leave
  the remote state as it was. For a payload without parts whose body, or whose body
  data, is absent, the result is the empty string.
\<close>

theorem decode_message_body_raises:
  "(parts p = None \<longrightarrow> payload_body p = Some (Some d) \<longrightarrow> b64_text d = Inl e \<longrightarrow>
      decode_message_body p = Inl e) \<and>
   (parts p = Some (skipped @ q # rest) \<longrightarrow>
      (\<forall>s \<in> set skipped. part_data s = None \<or>
         (mimeType s \<noteq> ''text/plain'' \<and> mimeType s \<noteq> ''text/html'')) \<longrightarrow>
      (mimeType q = ''text/plain'' \<or> mimeType q = ''text/html'') \<longrightarrow>
      part_data q = Some d \<longrightarrow> b64_text d = Inl e \<longrightarrow>
      decode_message_body p = Inl e) \<and>
   (decode_message_body p = Inl e \<longrightarrow>
      (\<exists>d'. b64_text d' = Inl e \<and>
         (payload_body p = Some (Some d') \<or>
          (\<exists>ps. parts p = Some ps \<and> (\<exists>q' \<in> set ps. part_data q' = Some d')))) \<and>
      (\<exists>cls msg. e = PyException cls msg \<and>
         (cls = ''ValueError'' \<or> cls = ''Error'' \<or> cls = ''UnicodeDecodeError''))) \<and>
   (token_error srv = None \<longrightarrow> messages_get_result srv (ge_message_id gp) = Inr m \<longrightarrow>
    decode_message_body (m_payload m) = Inl (PyException cls msg) \<longrightarrow>
      get_email lower dumps srv gp = (Inr (''Error: '' @ cls @ '': '' @ msg), srv)) \<and>
   (token_error srv = None \<longrightarrow>
    messages_list_result srv (se_query sp) (se_max_results sp) = Inr ids \<longrightarrow> ids \<noteq> [] \<longrightarrow>
    se_include_body sp \<longrightarrow> fetch_messages srv ids ''full'' [] = Inr (earlier @ m # later) \<longrightarrow>
    (\<forall>b \<in> set earlier. \<exists>t. decode_message_body (m_payload b) = Inr t) \<longrightarrow>
    decode_message_body (m_payload m) = Inl (PyException cls msg) \<longrightarrow>
      search_emails lower dumps srv sp = (Inr (''Error: '' @ cls @ '': '' @ msg), srv)) \<and>
   (parts p = None \<longrightarrow> payload_body p = None \<or> payload_body p = Some None \<longrightarrow>
      decode_message_body p = Inr [])"
proof (intro conjI impI)
  assume "parts p = None" "payload_body p = Some (Some d)" "b64_text d = Inl e"
  then show "decode_message_body p = Inl e"
    by (simp add: decode_message_body_def)
next
  assume "parts p = Some (skipped @ q # rest)"
    and "\<forall>s \<in> set skipped. part_data s = None \<or>
         (mimeType s \<noteq> ''text/plain'' \<and> mimeType s \<noteq> ''text/html'')"
    and "mimeType q = ''text/plain'' \<or> mimeType q = ''text/html''"
    and "part_data q = Some d" and "b64_text d = Inl e"
  then show "decode_message_body p = Inl e"
    by (simp add: decode_message_body_def decode_parts_first)
next
  assume err: "decode_message_body p = Inl e"
  then obtain d' where d': "b64_text d' = Inl e"
      "payload_body p = Some (Some d') \<or>
       (\<exists>ps. parts p = Some ps \<and> (\<exists>q' \<in> set ps. part_data q' = Some d'))"
    using decode_message_body_error by blast
  then show "\<exists>d'. b64_text d' = Inl e \<and>
         (payload_body p = Some (Some d') \<or>
          (\<exists>ps. parts p = Some ps \<and> (\<exists>q' \<in> set ps. part_data q' = Some d')))"
    by blast
  from d'(1) show "\<exists>cls msg. e = PyException cls msg \<and>
         (cls = ''ValueError'' \<or> cls = ''Error'' \<or> cls = ''UnicodeDecodeError'')"
    by (rule b64_text_error)
next
  assume "token_error srv = None" "messages_get_result srv (ge_message_id gp) = Inr m"
    "decode_message_body (m_payload m) = Inl (PyException cls msg)"
  then have "get_email_body lower dumps srv gp = (Inl (PyException cls msg), srv)"
    by (rule get_email_decode_error)
  then show "get_email lower dumps srv gp = (Inr (''Error: '' @ cls @ '': '' @ msg), srv)"
    by (simp add: get_email_def try_except_Inl handle_api_error_def)
next
  assume "token_error srv = None"
    "messages_list_result srv (se_query sp) (se_max_results sp) = Inr ids" "ids \<noteq> []"
    "se_include_body sp" "fetch_messages srv ids ''full'' [] = Inr (earlier @ m # later)"
    "\<forall>b \<in> set earlier. \<exists>t. decode_message_body (m_payload b) = Inr t"
    "decode_message_body (m_payload m) = Inl (PyException cls msg)"
  then have "search_emails_body lower dumps srv sp = (Inl (PyException cls msg), srv)"
    by (rule search_emails_decode_error)
  then show "search_emails lower dumps srv sp = (Inr (''Error: '' @ cls @ '': '' @ msg), srv)"
    by (simp add: search_emails_def try_except_Inl handle_api_error_def)
next
  assume "parts p = None" "payload_body p = None \<or> payload_body p = Some None"
  then show "decode_message_body p = Inr []"
    by (auto simp add: decode_message_body_def)
qed

text \<open>
  A message whose body data lacks a padding character: \<open>decode_message_body\<close> raises
  \<^verbatim>\<open>binascii.Error\<close>, and so \<open>get_email\<close> and \<open>search_emails\<close> with bodies, in either format,
  return the classifier's string. A payload whose first part to be decoded, the second
  of three, decodes to the byte 0xFF: \<^verbatim>\<open>UnicodeDecodeError\<close>. A payload whose body has no
  data: the empty string.
\<close>

theorem decode_message_body_raises_witness:
  "decode_message_body \<lparr>headers = [], parts = None, payload_body = Some (Some ''SGVsbG8'')\<rparr> =
     Inl (PyException ''Error'' ''Incorrect padding'') \<and>
   get_email str_lower (\<lambda>doc. [])
     (demo_server\<lparr>messages_get_result := \<lambda>message_id.
        Inr (demo_message\<lparr>m_payload :=
          \<lparr>headers = [], parts = None, payload_body = Some (Some ''SGVsbG8'')\<rparr>\<rparr>)\<rparr>)
     \<lparr>ge_message_id = ''m1'', ge_format = MARKDOWN\<rparr> =
     (Inr ''Error: Error: Incorrect padding'',
      demo_server\<lparr>messages_get_result := \<lambda>message_id.
        Inr (demo_message\<lparr>m_payload :=
          \<lparr>headers = [], parts = None, payload_body = Some (Some ''SGVsbG8'')\<rparr>\<rparr>)\<rparr>) \<and>
   search_emails str_lower (\<lambda>doc. [])
     (demo_server\<lparr>messages_get_result := \<lambda>message_id.
        Inr (demo_message\<lparr>m_payload :=
          \<lparr>headers = [], parts = None, payload_body = Some (Some ''SGVsbG8'')\<rparr>\<rparr>)\<rparr>)
     \<lparr>se_query = ''is:unread'', se_max_results = 10, se_include_body = True,
      se_format = JSON\<rparr> =
     (Inr ''Error: Error: Incorrect padding'',
      demo_server\<lparr>messages_get_result := \<lambda>message_id.
        Inr (demo_message\<lparr>m_payload :=
          \<lparr>headers = [], parts = None, payload_body = Some (Some ''SGVsbG8'')\<rparr>\<rparr>)\<rparr>) \<and>
   decode_message_body
     \<lparr>headers = [],
      parts = Some [\<lparr>mimeType = ''image/png'', part_data = Some ''iVBORw''\<rparr>,
                    \<lparr>mimeType = ''text/html'', part_data = Some ''_w==''\<rparr>,
                    \<lparr>mimeType = ''text/plain'', part_data = Some ''SGVsbG8=''\<rparr>],
      payload_body = None\<rparr> =
     Inl (PyException ''UnicodeDecodeError''
           ([CHR 0x27] @ ''utf-8'' @ [CHR 0x27] @ '' codec can'' @ [CHR 0x27] @
            ''t decode byte 0xff in position 0: invalid start byte'')) \<and>
   decode_message_body \<lparr>headers = [], parts = None, payload_body = Some None\<rparr> = Inr []"
proof -
  let ?e1 = "PyException ''Error'' ''Incorrect padding''"
  let ?e2 = "PyException ''UnicodeDecodeError''
           ([CHR 0x27] @ ''utf-8'' @ [CHR 0x27] @ '' codec can'' @ [CHR 0x27] @
            ''t decode byte 0xff in position 0: invalid start byte'')"
  let ?p1 = "\<lparr>headers = [], parts = None, payload_body = Some (Some ''SGVsbG8'')\<rparr>"
  let ?m1 = "demo_message\<lparr>m_payload := ?p1\<rparr>"
  let ?s1 = "demo_server\<lparr>messages_get_result := \<lambda>message_id. Inr ?m1\<rparr>"
  let ?gp = "\<lparr>ge_message_id = ''m1'', ge_format = MARKDOWN\<rparr>"
  let ?sp = "\<lparr>se_query = ''is:unread'', se_max_results = 10, se_include_body = True,
      se_format = JSON\<rparr>"
  let ?skipped = "[\<lparr>mimeType = ''image/png'', part_data = Some ''iVBORw''\<rparr>]"
  let ?q = "\<lparr>mimeType = ''text/html'', part_data = Some ''_w==''\<rparr>"
  let ?rest = "[\<lparr>mimeType = ''text/plain'', part_data = Some ''SGVsbG8=''\<rparr>]"
  let ?p2 = "\<lparr>headers = [], parts = Some (?skipped @ ?q # ?rest), payload_body = None\<rparr>"
  let ?p3 = "\<lparr>headers = [], parts = None, payload_body = Some None\<rparr>"
  have a: "decode_message_body ?p1 = Inl ?e1"
    using decode_message_body_raises [of ?p1 "''SGVsbG8''" ?e1]
    by (simp add: b64_text_truncated)
  then have a': "decode_message_body (m_payload ?m1) = Inl ?e1"
    by simp
  have tok: "token_error ?s1 = None"
    by (simp add: demo_server_def)
  have got: "messages_get_result ?s1 (ge_message_id ?gp) = Inr ?m1"
    by simp
  have b: "get_email str_lower (\<lambda>doc. []) ?s1 ?gp = (Inr ''Error: Error: Incorrect padding'', ?s1)"
    using decode_message_body_raises
      [where srv = ?s1 and gp = ?gp and m = ?m1 and cls = "''Error''"
         and msg = "''Incorrect padding''" and lower = str_lower and dumps = "\<lambda>doc. []"]
      tok got a'
    by simp
  have lst: "messages_list_result ?s1 (se_query ?sp) (se_max_results ?sp) = Inr [''m1'']"
    by (simp add: demo_server_def)
  have fetched: "fetch_messages ?s1 [''m1''] ''full'' [] = Inr ([] @ ?m1 # [])"
    by (simp add: messages_get_def)
  have c: "search_emails str_lower (\<lambda>doc. []) ?s1 ?sp =
      (Inr ''Error: Error: Incorrect padding'', ?s1)"
    using decode_message_body_raises
      [where srv = ?s1 and sp = ?sp and m = ?m1 and cls = "''Error''"
         and msg = "''Incorrect padding''" and lower = str_lower and dumps = "\<lambda>doc. []"
         and ids = "[''m1'']" and earlier = "[]" and later = "[]"]
      tok lst fetched a'
    by simp
  have d: "decode_message_body ?p2 = Inl ?e2"
    using decode_message_body_raises [of ?p2 "''_w==''" ?e2 ?skipped ?q ?rest]
    by (simp add: b64_text_not_utf8)
  have e: "decode_message_body ?p3 = Inr []"
    using decode_message_body_raises [of ?p3] by simp
  from a b c d e show ?thesis by simp
qed

text \<open>
  The claim as stated fails: for body data that lacks a padding character
  \<open>decode_message_body\<close> raises \<^verbatim>\<open>binascii.Error\<close>, for body data that decodes to the byte
  0xFF it raises \<^verbatim>\<open>UnicodeDecodeError\<close>, and for body data with a character outside ASCII
  \<^verbatim>\<open>ValueError\<close>; none of them gives the empty string of the absent body.
\<close>

theorem decode_message_body_malformed:
  "decode_message_body \<lparr>headers = [], parts = None, payload_body = Some (Some ''SGVsbG8'')\<rparr> =
     Inl (PyException ''Error'' ''Incorrect padding'') \<and>
   decode_message_body \<lparr>headers = [], parts = None, payload_body = Some (Some ''_w=='')\<rparr> =
     Inl (PyException ''UnicodeDecodeError''
           ([CHR 0x27] @ ''utf-8'' @ [CHR 0x27] @ '' codec can'' @ [CHR 0x27] @
            ''t decode byte 0xff in position 0: invalid start byte'')) \<and>
   decode_message_body
     \<lparr>headers = [], parts = None, payload_body = Some (Some [CHR 0xC3, CHR 0xA9])\<rparr> =
     Inl (PyException ''ValueError'' ''string argument should contain only ASCII characters'') \<and>
   decode_message_body \<lparr>headers = [], parts = None, payload_body = None\<rparr> = Inr []"
  by (simp add: decode_message_body_def b64_text_truncated b64_text_not_utf8 b64_text_not_ascii)

end
